theory Spec2Isabelle
  imports Complex_Main "HOL-Library.AList"
begin

section \<open>Python values of the configuration\<close>

text \<open>
  The options \<^verbatim>\<open>opt\<close> are read from a JSON file, so a configuration value is any
  JSON value. Floats are modelled by the real number they denote: the model follows which
  operations are applied to them, not their rounding.
\<close>

datatype pyval =
    PNone
  | PBool bool
  | PInt int
  | PFloat real
  | PStr string
  | PList "pyval list"
  | PDict "(string \<times> pyval) list" "pyval option"

datatype error =
    KeyError string
  | TypeError
  | ZeroDivisionError
  | AttributeError string
  | NotImplementedError_loss_type pyval
    \<comment> \<open>\<^verbatim>\<open>NotImplementedError('Loss type [%s] is not recognized.' % l_type)\<close>\<close>
  | NotImplementedError_lr_scheme
    \<comment> \<open>\<^verbatim>\<open>NotImplementedError('MultiStepLR learning rate scheme is enough.')\<close>\<close>

text \<open>Truth value testing, as \<^verbatim>\<open>if v\<close> and \<^verbatim>\<open>v if v else d\<close> do.\<close>

fun truthy :: "pyval \<Rightarrow> bool" where
  "truthy PNone = False"
| "truthy (PBool b) = b"
| "truthy (PInt i) = (i \<noteq> 0)"
| "truthy (PFloat r) = (r \<noteq> 0)"
| "truthy (PStr s) = (s \<noteq> [])"
| "truthy (PList xs) = (xs \<noteq> [])"
| "truthy (PDict kvs d) = (kvs \<noteq> [])"

text \<open>The numeric value of a number (\<^verbatim>\<open>bool\<close> is a subclass of \<^verbatim>\<open>int\<close>).\<close>

fun py_num :: "pyval \<Rightarrow> real option" where
  "py_num (PBool b) = Some (if b then 1 else 0)"
| "py_num (PInt i) = Some (of_int i)"
| "py_num (PFloat r) = Some r"
| "py_num _ = None"

text \<open>
  \<^verbatim>\<open>v > n\<close> and \<^verbatim>\<open>n > v\<close> for an integer \<^verbatim>\<open>n\<close> (Python 3): an ordering
  comparison of a number with a value that is not a number raises \<^verbatim>\<open>TypeError\<close>.
\<close>

definition py_gt_int :: "pyval \<Rightarrow> int \<Rightarrow> error + bool" where
  "py_gt_int v n = (case py_num v of None \<Rightarrow> Inl TypeError | Some x \<Rightarrow> Inr (x > of_int n))"

definition int_gt_py :: "int \<Rightarrow> pyval \<Rightarrow> error + bool" where
  "int_gt_py n v = (case py_num v of None \<Rightarrow> Inl TypeError | Some x \<Rightarrow> Inr (of_int n > x))"

text \<open>
  \<^verbatim>\<open>n % v\<close> for an integer \<^verbatim>\<open>n\<close>: the remainder has the sign of the divisor, for
  integers and for floats.
\<close>

fun int_mod_py :: "int \<Rightarrow> pyval \<Rightarrow> error + pyval" where
  "int_mod_py n (PBool b) = (if b then Inr (PInt (n mod 1)) else Inl ZeroDivisionError)"
| "int_mod_py n (PInt d) = (if d = 0 then Inl ZeroDivisionError else Inr (PInt (n mod d)))"
| "int_mod_py n (PFloat d) =
     (if d = 0 then Inl ZeroDivisionError
      else Inr (PFloat (of_int n - d * of_int \<lfloor>of_int n / d\<rfloor>)))"
| "int_mod_py n _ = Inl TypeError"

text \<open>\<^verbatim>\<open>v == n\<close> for an integer \<^verbatim>\<open>n\<close>: never raises.\<close>

definition py_eq_int :: "pyval \<Rightarrow> int \<Rightarrow> bool" where
  "py_eq_int v n = (py_num v = Some (of_int n))"

text \<open>\<^verbatim>\<open>v * n\<close> for an integer \<^verbatim>\<open>n\<close>: a product of numbers, or a sequence repeated.\<close>

fun py_mul_int :: "pyval \<Rightarrow> int \<Rightarrow> error + pyval" where
  "py_mul_int (PBool b) n = Inr (PInt ((if b then 1 else 0) * n))"
| "py_mul_int (PInt i) n = Inr (PInt (i * n))"
| "py_mul_int (PFloat r) n = Inr (PFloat (r * of_int n))"
| "py_mul_int (PStr s) n = Inr (PStr (concat (replicate (nat n) s)))"
| "py_mul_int (PList xs) n = Inr (PList (concat (replicate (nat n) xs)))"
| "py_mul_int _ n = Inl TypeError"

text \<open>\<^verbatim>\<open>sub in s\<close> on strings.\<close>

fun str_in :: "string \<Rightarrow> string \<Rightarrow> bool" where
  "str_in sub [] = (sub = [])"
| "str_in sub (c # cs) = (take (length sub) (c # cs) = sub \<or> str_in sub cs)"

text \<open>
  \<^verbatim>\<open>d[k]\<close> for a string key. The class of the options dictionaries is decided by the
  option parser, which is not part of this module: the second argument of \<open>PDict\<close> is
  what \<^verbatim>\<open>d[k]\<close> does for a key that is not there, \<open>None\<close> for a plain \<^verbatim>\<open>dict\<close>
  (\<^verbatim>\<open>KeyError\<close>) and \<open>Some v\<close> for a dictionary whose \<^verbatim>\<open>__missing__\<close> returns
  \<open>v\<close>. No other value of the configuration can be indexed by a string.
\<close>

fun getitem :: "pyval \<Rightarrow> string \<Rightarrow> error + pyval" where
  "getitem (PDict kvs d) k =
     (case map_of kvs k of
        Some v \<Rightarrow> Inr v
      | None \<Rightarrow> (case d of None \<Rightarrow> Inl (KeyError k) | Some v \<Rightarrow> Inr v))"
| "getitem _ k = Inl TypeError"

text \<open>\<^verbatim>\<open>os.path.join(a, *p)\<close> of \<^verbatim>\<open>posixpath\<close>.\<close>

fun os_path_join :: "string \<Rightarrow> string list \<Rightarrow> string" where
  "os_path_join path [] = path"
| "os_path_join path (b # p) =
     os_path_join
       (if take 1 b = ''/'' then b
        else if path = [] \<or> last path = CHR ''/'' then path @ b
        else path @ ''/'' @ b) p"

section \<open>The framework boundary\<close>

text \<open>
  Networks, criteria, optimizers and tensors belong to the ML framework and to sibling
  modules. A call into them is recorded as an event of the trace, in the order of the
  calls, and its result is a symbolic value that names the call; the calls are taken to
  return. What the module itself decides (which calls are made, in which order, with which
  arguments, and which exceptions its own statements raise) is computed by the model.
\<close>

datatype module =
    M_netG | M_netD | M_netF
  | M_cri_pix | M_cri_fea | M_cri_gan | M_cri_ce | M_cri_gp

datatype optimizer_name = Optimizer_G_SFT | Optimizer_G_other | Optimizer_D

datatype criterion = L1Loss | MSELoss

datatype mode = Train_mode | Eval_mode

text \<open>
  Symbolic tensors. \<open>Var_L\<close>, \<open>Var_seg\<close>, \<open>Var_cat\<close> and \<open>Var_H\<close> stand for the
  attributes \<^verbatim>\<open>self.var_L\<close>, ... that \<^verbatim>\<open>feed_data\<close> sets; \<open>Call f args\<close> is
  the result of \<^verbatim>\<open>f(*args)\<close> and \<open>Item i t\<close> its \<open>i\<close>-th component.
\<close>

datatype tval =
    Var_L | Var_seg | Var_cat | Var_H
  | Random_pt
  | Zero
  | Target bool
  | Tuple "tval list"
  | Call module "tval list"
  | Item nat tval
  | Detach tval
  | Requires_grad tval
  | Weighted pyval tval
  | Add tval tval
  | Mul tval tval
  | One_minus tval
  | Data0 tval
  | Mean_data tval

datatype event =
    Print string "pyval list"
  | Define module
  | Set_train module
  | Set_eval module
  | Load_network pyval module
  | Cuda module
  | File_write string string string
    \<comment> \<open>path, mode, text: \<^verbatim>\<open>with open(path, mode) as f: f.write(text)\<close>\<close>
  | Zero_grad optimizer_name
  | Forward module "tval list"
  | Backward tval
  | Step optimizer_name
  | Resize_random_pt nat
  | Uniform_random_pt

type_synonym param = nat

record adam =
  params :: "param list"
  lr :: pyval
  weight_decay :: pyval
  betas :: "pyval \<times> pyval"

record multi_step_lr =
  optimizer :: optimizer_name
  milestones :: pyval
  gamma :: pyval

text \<open>
  What the networks built by \<^verbatim>\<open>networks.define_G\<close> and \<^verbatim>\<open>define_D\<close> expose, and what
  \<^verbatim>\<open>BaseModel.get_network_description\<close> returns for a network: parameters of the model.
\<close>

record framework =
  named_parameters_G :: "(string \<times> param) list"
  parameters_D :: "param list"
  get_network_description :: "module \<Rightarrow> string \<times> int"

section \<open>The model object\<close>

text \<open>
  The attributes that \<^verbatim>\<open>__init__\<close> sets in its training block. An attribute that is
  set on one branch only is an option.
\<close>

record training =
  cri_pix :: "criterion option"
  l_pix_w :: "pyval option"
  cri_fea :: "criterion option"
  l_fea_w :: "pyval option"
  netF :: bool
  cri_gan :: pyval
  l_gan_w :: pyval
  D_update_ratio :: pyval
  D_init_iters :: pyval
  random_pt :: "nat option"
  l_gp_w :: "pyval option"
  optimizer_G_SFT :: adam
  optimizer_G_other :: adam
  optimizer_D :: adam
  schedulers :: "multi_step_lr list"
  log_dict :: "(string \<times> tval) list"

text \<open>
  \<open>opt\<close>, \<open>is_train\<close>, \<open>save_dir\<close> and \<open>use_gpu\<close> are set by \<^verbatim>\<open>BaseModel.__init__\<close>.
  \<open>var_L\<close>, ... hold the batch size of the tensor once \<^verbatim>\<open>feed_data\<close> has set it, and
  \<open>netD_mode\<close> is \<open>None\<close> while \<^verbatim>\<open>self.netD\<close> does not exist.
\<close>

record model =
  fw :: framework
  opt :: pyval
  is_train :: bool
  save_dir :: string
  use_gpu :: bool
  netG_mode :: mode
  netD_mode :: "mode option"
  tr :: "training option"
  var_L :: "nat option"
  var_seg :: "nat option"
  var_cat :: "nat option"
  var_H :: "nat option"
  fake_H :: "tval option"
  trace :: "event list"

datatype outcome = Raised error model | Done model

definition emit :: "event list \<Rightarrow> model \<Rightarrow> model" where
  "emit es m = m\<lparr>trace := trace m @ es\<rparr>"

definition and_then :: "outcome \<Rightarrow> (model \<Rightarrow> outcome) \<Rightarrow> outcome" where
  "and_then r k = (case r of Raised e m \<Rightarrow> Raised e m | Done m \<Rightarrow> k m)"

definition eval_in :: "model \<Rightarrow> error + 'a \<Rightarrow> ('a \<Rightarrow> outcome) \<Rightarrow> outcome" where
  "eval_in m r k = (case r of Inl e \<Rightarrow> Raised e m | Inr v \<Rightarrow> k v)"

definition attr :: "model \<Rightarrow> string \<Rightarrow> 'a option \<Rightarrow> ('a \<Rightarrow> outcome) \<Rightarrow> outcome" where
  "attr m name a k = (case a of None \<Rightarrow> Raised (AttributeError name) m | Some v \<Rightarrow> k v)"

definition bind_err :: "error + 'a \<Rightarrow> ('a \<Rightarrow> error + 'b) \<Rightarrow> error + 'b" where
  "bind_err r k = (case r of Inl e \<Rightarrow> Inl e | Inr v \<Rightarrow> k v)"

text \<open>\<^verbatim>\<open>d[k] if d[k] else dflt\<close>\<close>

definition getitem_or :: "pyval \<Rightarrow> string \<Rightarrow> pyval \<Rightarrow> error + pyval" where
  "getitem_or d k dflt =
     bind_err (getitem d k) (\<lambda>c. if truthy c then getitem d k else Inr dflt)"

section \<open>\<^verbatim>\<open>feed_data\<close> and \<^verbatim>\<open>load\<close>\<close>

text \<open>A batch: the size of each tensor of \<^verbatim>\<open>data\<close> along its first dimension.\<close>

record batch =
  LR :: nat
  seg :: nat
  category :: nat
  HR :: "nat option"

definition feed_data :: "batch \<Rightarrow> bool \<Rightarrow> model \<Rightarrow> outcome" where
  "feed_data data need_HR m =
     (let m1 = m\<lparr>var_L := Some (LR data), var_seg := Some (seg data),
                  var_cat := Some (category data)\<rparr>
      in if need_HR then
           (case HR data of
              None \<Rightarrow> Raised (KeyError ''HR'') m1
            | Some n \<Rightarrow> Done (m1\<lparr>var_H := Some n\<rparr>))
         else Done m1)"

definition load :: "model \<Rightarrow> outcome" where
  "load m =
     eval_in m (bind_err (getitem (opt m) ''path'') (\<lambda>p. getitem p ''pretrain_model_G''))
       (\<lambda>load_path_G.
     let m1 = (if load_path_G \<noteq> PNone
               then emit [Print ''loading model for G [%s] ...'' [load_path_G],
                          Load_network load_path_G M_netG] m
               else m)
     in
     eval_in m1 (bind_err (getitem (opt m1) ''path'') (\<lambda>p. getitem p ''pretrain_model_D''))
       (\<lambda>load_path_D.
     eval_in m1 (getitem (opt m1) ''is_train'') (\<lambda>opt_is_train.
     if truthy opt_is_train \<and> load_path_D \<noteq> PNone then
       (let m2 = emit [Print ''loading model for D [%s] ...'' [load_path_D]] m1
        in attr m2 ''netD'' (netD_mode m2)
             (\<lambda>_. Done (emit [Load_network load_path_D M_netD] m2)))
     else Done m1)))"

section \<open>\<^verbatim>\<open>print_network\<close>\<close>

definition network_path :: "model \<Rightarrow> string" where
  "network_path m = os_path_join (save_dir m) [''../'', ''network.txt'']"

definition print_network :: "model \<Rightarrow> outcome" where
  "print_network m =
     (let (s, n) = get_network_description (fw m) M_netG;
          m1 = emit [Print ''Number of parameters in G: {:,d}'' [PInt n]] m
      in
      if is_train m1 then
        (let message = ''-------------- Generator --------------\<newline>'' @ s @ ''\<newline>'';
             m2 = emit [File_write (network_path m1) ''w'' message] m1
         in
         attr m2 ''netD'' (netD_mode m2) (\<lambda>_.
         let (s, n) = get_network_description (fw m2) M_netD;
             message =
               ''\<newline>\<newline>\<newline>-------------- Discriminator --------------\<newline>''
               @ s @ ''\<newline>'';
             m3 = emit [Print ''Number of parameters in D: {:,d}'' [PInt n],
                        File_write (network_path m1) ''a'' message] m2
         in
         attr m3 ''cri_fea'' (tr m3) (\<lambda>t.
         if cri_fea t \<noteq> None then
           (if netF t then
              (let (s, n) = get_network_description (fw m3) M_netF;
                   message =
                     ''\<newline>\<newline>\<newline>-------------- Perceptual Network --------------\<newline>''
                     @ s @ ''\<newline>''
               in Done (emit [Print ''Number of parameters in F: {:,d}'' [PInt n],
                              File_write (network_path m1) ''a'' message] m3))
            else Raised (AttributeError ''netF'') m3)
         else Done m3)))
      else Done m1)"

section \<open>\<^verbatim>\<open>__init__\<close>\<close>

text \<open>
  The pixel loss and the feature loss are set up by the same statements on different
  keys: the criterion and its weight, or \<open>(None, None)\<close> when the weight is not positive.
\<close>

definition criterion_from_opt ::
  "pyval \<Rightarrow> string \<Rightarrow> string \<Rightarrow> error + (criterion option \<times> pyval option)" where
  "criterion_from_opt train_opt weight_key criterion_key =
     bind_err (getitem train_opt weight_key) (\<lambda>w.
     bind_err (py_gt_int w 0) (\<lambda>positive.
     if positive then
       bind_err (getitem train_opt criterion_key) (\<lambda>l_type.
       bind_err (if l_type = PStr ''l1'' then Inr L1Loss
                 else if l_type = PStr ''l2'' then Inr MSELoss
                 else Inl (NotImplementedError_loss_type l_type)) (\<lambda>cri.
       bind_err (getitem train_opt weight_key) (\<lambda>w'.
       Inr (Some cri, Some w'))))
     else Inr (None, None)))"

text \<open>The gradient penalty: \<^verbatim>\<open>random_pt\<close> (its first dimension) and \<^verbatim>\<open>l_gp_w\<close>.\<close>

definition gp_from_opt :: "pyval \<Rightarrow> error + (nat option \<times> pyval option)" where
  "gp_from_opt train_opt =
     bind_err (getitem train_opt ''gan_type'') (\<lambda>gan_type.
     if gan_type = PStr ''wgan-gp'' then
       bind_err (getitem train_opt ''gp_weigth'') (\<lambda>w. Inr (Some 1, Some w))
     else Inr (None, None))"

definition cuda_calls ::
  "pyval \<Rightarrow> criterion option \<Rightarrow> criterion option \<Rightarrow> error + event list" where
  "cuda_calls train_opt cri_pix' cri_fea' =
     bind_err (getitem train_opt ''gan_type'') (\<lambda>gan_type.
     Inr ((if cri_pix' \<noteq> None then [Cuda M_cri_pix] else [])
          @ (if cri_fea' \<noteq> None then [Cuda M_cri_fea] else [])
          @ [Cuda M_cri_gan, Cuda M_cri_ce]
          @ (if gan_type = PStr ''wgan-gp'' then [Cuda M_cri_gp] else [])))"

text \<open>The loop over \<^verbatim>\<open>self.netG.named_parameters()\<close>.\<close>

fun split_params ::
  "(string \<times> param) list \<Rightarrow> param list \<Rightarrow> param list \<Rightarrow> param list \<times> param list" where
  "split_params [] optim_params_SFT optim_params_other = (optim_params_SFT, optim_params_other)"
| "split_params ((k, v) # kvs) optim_params_SFT optim_params_other =
     (if str_in ''SFT'' k \<or> str_in ''Cond'' k
      then split_params kvs (optim_params_SFT @ [v]) optim_params_other
      else split_params kvs optim_params_SFT (optim_params_other @ [v]))"

definition make_optimizers :: "framework \<Rightarrow> pyval \<Rightarrow> error + (adam \<times> adam \<times> adam)" where
  "make_optimizers fwk train_opt =
     bind_err (getitem_or train_opt ''weight_decay_G'' (PInt 0)) (\<lambda>wd_G.
     let (optim_params_SFT, optim_params_other) = split_params (named_parameters_G fwk) [] []
     in
     bind_err (getitem train_opt ''lr_G'') (\<lambda>lr_G.
     bind_err (py_mul_int lr_G 5) (\<lambda>lr_SFT.
     bind_err (getitem train_opt ''beta1_G'') (\<lambda>beta1_SFT.
     bind_err (getitem train_opt ''lr_G'') (\<lambda>lr_other.
     bind_err (getitem train_opt ''beta1_G'') (\<lambda>beta1_other.
     bind_err (getitem_or train_opt ''weight_decay_D'' (PInt 0)) (\<lambda>wd_D.
     bind_err (getitem train_opt ''lr_D'') (\<lambda>lr_D.
     bind_err (getitem train_opt ''beta1_D'') (\<lambda>beta1_D.
     Inr (\<lparr>params = optim_params_SFT, lr = lr_SFT, weight_decay = wd_G,
            betas = (beta1_SFT, PFloat 0.999)\<rparr>,
          \<lparr>params = optim_params_other, lr = lr_other, weight_decay = wd_G,
            betas = (beta1_other, PFloat 0.999)\<rparr>,
          \<lparr>params = parameters_D fwk, lr = lr_D, weight_decay = wd_D,
            betas = (beta1_D, PFloat 0.999)\<rparr>))))))))))"

text \<open>The loop over \<^verbatim>\<open>self.optimizers\<close> that appends one scheduler for each.\<close>

fun append_schedulers ::
  "pyval \<Rightarrow> optimizer_name list \<Rightarrow> multi_step_lr list \<Rightarrow> error + multi_step_lr list" where
  "append_schedulers train_opt [] scheds = Inr scheds"
| "append_schedulers train_opt (opt_name # optimizers) scheds =
     bind_err (getitem train_opt ''lr_steps'') (\<lambda>lr_steps.
     bind_err (getitem train_opt ''lr_gamma'') (\<lambda>lr_gamma.
     append_schedulers train_opt optimizers
       (scheds @ [\<lparr>optimizer = opt_name, milestones = lr_steps, gamma = lr_gamma\<rparr>])))"

definition make_schedulers :: "pyval \<Rightarrow> error + multi_step_lr list" where
  "make_schedulers train_opt =
     bind_err (getitem train_opt ''lr_scheme'') (\<lambda>lr_scheme.
     if lr_scheme = PStr ''MultiStepLR''
     then append_schedulers train_opt [Optimizer_G_SFT, Optimizer_G_other, Optimizer_D] []
     else Inl NotImplementedError_lr_scheme)"

text \<open>The training block of \<^verbatim>\<open>__init__\<close> (\<^verbatim>\<open>if self.is_train:\<close> ... up to the schedulers).\<close>

definition init_train :: "pyval \<Rightarrow> model \<Rightarrow> outcome" where
  "init_train train_opt m =
     eval_in m (criterion_from_opt train_opt ''pixel_weight'' ''pixel_criterion'')
       (\<lambda>(cri_pix', l_pix_w').
     let m1 = (if cri_pix' = None then emit [Print ''Remove pixel loss.'' []] m else m) in
     eval_in m1 (criterion_from_opt train_opt ''feature_weight'' ''feature_criterion'')
       (\<lambda>(cri_fea', l_fea_w').
     let m2 = (if cri_fea' = None then emit [Print ''Remove feature loss.'' []] m1 else m1);
         m3 = (if cri_fea' \<noteq> None then emit [Define M_netF] m2 else m2) in
     eval_in m3 (getitem train_opt ''gan_type'') (\<lambda>gan_type.
     eval_in m3 (getitem train_opt ''gan_weight'') (\<lambda>gan_weight.
     eval_in m3 (getitem_or train_opt ''D_update_ratio'' (PInt 1)) (\<lambda>ratio.
     eval_in m3 (getitem_or train_opt ''D_init_iters'' (PInt 0)) (\<lambda>init_iters.
     eval_in m3 (gp_from_opt train_opt) (\<lambda>(random_pt', l_gp_w').
     eval_in m3 (if use_gpu m3 then cuda_calls train_opt cri_pix' cri_fea' else Inr [])
       (\<lambda>cuda.
     let m4 = emit cuda m3 in
     eval_in m4 (make_optimizers (fw m4) train_opt) (\<lambda>(opt_SFT, opt_other, opt_D).
     eval_in m4 (make_schedulers train_opt) (\<lambda>scheds.
     Done (m4\<lparr>tr := Some
       \<lparr>cri_pix = cri_pix', l_pix_w = l_pix_w', cri_fea = cri_fea', l_fea_w = l_fea_w',
        netF = (cri_fea' \<noteq> None), cri_gan = gan_type, l_gan_w = gan_weight,
        D_update_ratio = ratio, D_init_iters = init_iters,
        random_pt = random_pt', l_gp_w = l_gp_w',
        optimizer_G_SFT = opt_SFT, optimizer_G_other = opt_other, optimizer_D = opt_D,
        schedulers = scheds, log_dict = []\<rparr>\<rparr>)))))))))))"

text \<open>
  \<^verbatim>\<open>__init__(self, opt)\<close>. The arguments after \<open>opt\<close> are the attributes that
  \<^verbatim>\<open>BaseModel.__init__\<close> sets from it. A network is in training mode when it is built.
\<close>

definition init :: "framework \<Rightarrow> pyval \<Rightarrow> bool \<Rightarrow> string \<Rightarrow> bool \<Rightarrow> outcome" where
  "init fwk opt' is_train' save_dir' use_gpu' =
     (let m0 = \<lparr>fw = fwk, opt = opt', is_train = is_train', save_dir = save_dir',
                use_gpu = use_gpu', netG_mode = Train_mode, netD_mode = None, tr = None,
                var_L = None, var_seg = None, var_cat = None, var_H = None,
                fake_H = None, trace = []\<rparr>
      in
      eval_in m0 (getitem opt' ''train'') (\<lambda>train_opt.
      let m1 = emit [Define M_netG] m0;
          m2 = (if is_train m1
                then (emit [Define M_netD, Set_train M_netG, Set_train M_netD] m1)
                       \<lparr>netG_mode := Train_mode, netD_mode := Some Train_mode\<rparr>
                else m1)
      in
      and_then (load m2) (\<lambda>m3.
      and_then (if is_train m3 then init_train train_opt m3 else Done m3) (\<lambda>m4.
      and_then
        (print_network
           (emit [Print ''---------- Model initialized ------------------'' []] m4)) (\<lambda>m5.
      Done (emit [Print ''-----------------------------------------------'' []] m5))))))"

section \<open>\<^verbatim>\<open>optimize_parameters\<close> and \<^verbatim>\<open>test\<close>\<close>

text \<open>\<^verbatim>\<open>step % self.D_update_ratio == 0 and step > self.D_init_iters\<close>\<close>

definition gate :: "int \<Rightarrow> training \<Rightarrow> error + bool" where
  "gate step t =
     bind_err (int_mod_py step (D_update_ratio t)) (\<lambda>r.
     if py_eq_int r 0 then int_gt_py step (D_init_iters t) else Inr False)"

text \<open>
  \<^verbatim>\<open>w * t\<close> for a configuration value \<open>w\<close> and a loss tensor \<open>t\<close>: the product when
  \<open>w\<close> is a number, \<^verbatim>\<open>TypeError\<close> when it is \<^verbatim>\<open>None\<close>, a string, a list or a
  dictionary.
\<close>

definition py_mul_tensor :: "pyval \<Rightarrow> tval \<Rightarrow> error + tval" where
  "py_mul_tensor w t = (case py_num w of None \<Rightarrow> Inl TypeError | Some x \<Rightarrow> Inr (Weighted w t))"

text \<open>The outputs \<^verbatim>\<open>pred, cls = self.netD(x)\<close> of the discriminator.\<close>

definition netD_pred :: "tval \<Rightarrow> tval" where
  "netD_pred x = Item 0 (Call M_netD [x])"

definition netD_cls :: "tval \<Rightarrow> tval" where
  "netD_cls x = Item 1 (Call M_netD [x])"

text \<open>
  The loss terms, as the values of the local variables of the same names once they have
  been computed.
\<close>

definition l_g_pix :: "pyval \<Rightarrow> tval \<Rightarrow> tval" where
  "l_g_pix w fake = Weighted w (Call M_cri_pix [fake, Var_H])"

definition l_g_fea :: "pyval \<Rightarrow> tval \<Rightarrow> tval" where
  "l_g_fea w fake =
     Weighted w (Call M_cri_fea [Call M_netF [fake], Detach (Call M_netF [Var_H])])"

definition l_g_gan :: "pyval \<Rightarrow> tval \<Rightarrow> tval" where
  "l_g_gan w fake = Weighted w (Call M_cri_gan [netD_pred fake, Target True])"

definition l_g_cls :: "pyval \<Rightarrow> tval \<Rightarrow> tval" where
  "l_g_cls w fake = Weighted w (Call M_cri_ce [netD_cls fake, Var_cat])"

definition l_d_real :: tval where
  "l_d_real = Call M_cri_gan [netD_pred Var_H, Target True]"

definition l_d_cls_real :: tval where
  "l_d_cls_real = Call M_cri_ce [netD_cls Var_H, Var_cat]"

definition l_d_fake :: "tval \<Rightarrow> tval" where
  "l_d_fake fake = Call M_cri_gan [netD_pred (Detach fake), Target False]"

definition l_d_cls_fake :: "tval \<Rightarrow> tval" where
  "l_d_cls_fake fake = Call M_cri_ce [netD_cls (Detach fake), Var_cat]"

definition interp :: "tval \<Rightarrow> tval" where
  "interp fake =
     Requires_grad (Detach (Add (Mul Random_pt fake) (Mul (One_minus Random_pt) Var_H)))"

definition l_d_gp :: "pyval \<Rightarrow> tval \<Rightarrow> tval" where
  "l_d_gp w fake = Weighted w (Call M_cri_gp [interp fake, netD_pred (interp fake)])"

text \<open>
  The body of \<^verbatim>\<open>if step % self.D_update_ratio == 0 and step > self.D_init_iters:\<close>, from
  \<^verbatim>\<open>l_g_total = 0\<close> to \<^verbatim>\<open>self.optimizer_G_SFT.step()\<close>.
\<close>

definition generator_update :: "training \<Rightarrow> tval \<Rightarrow> model \<Rightarrow> outcome" where
  "generator_update t fake m =
     (let l_g_total = Zero in
      (if cri_pix t \<noteq> None then
         (\<lambda>k. attr m ''l_pix_w'' (l_pix_w t) (\<lambda>w.
               attr m ''var_H'' (var_H m) (\<lambda>_.
               let m' = emit [Forward M_cri_pix [fake, Var_H]] m in
               eval_in m' (py_mul_tensor w (Call M_cri_pix [fake, Var_H])) (\<lambda>l_g_pix.
               k (Add l_g_total l_g_pix) m'))))
       else (\<lambda>k. k l_g_total m))
      (\<lambda>l_g_total m1.
      (if cri_fea t \<noteq> None then
         (\<lambda>k. if \<not> netF t then Raised (AttributeError ''netF'') m1 else
               attr m1 ''var_H'' (var_H m1) (\<lambda>_.
               let m2 = emit [Forward M_netF [Var_H], Forward M_netF [fake]] m1 in
               attr m2 ''l_fea_w'' (l_fea_w t) (\<lambda>w.
               let m' = emit [Forward M_cri_fea
                                [Call M_netF [fake], Detach (Call M_netF [Var_H])]] m2 in
               eval_in m'
                 (py_mul_tensor w
                    (Call M_cri_fea [Call M_netF [fake], Detach (Call M_netF [Var_H])]))
                 (\<lambda>l_g_fea.
               k (Add l_g_total l_g_fea) m'))))
       else (\<lambda>k. k l_g_total m1))
      (\<lambda>l_g_total m3.
      attr m3 ''netD'' (netD_mode m3) (\<lambda>_.
      let m4 = emit [Forward M_netD [fake],
                     Forward M_cri_gan [netD_pred fake, Target True]] m3 in
      eval_in m4 (py_mul_tensor (l_gan_w t) (Call M_cri_gan [netD_pred fake, Target True]))
        (\<lambda>l_g_gan.
      attr m4 ''var_cat'' (var_cat m4) (\<lambda>_.
      let m5 = emit [Forward M_cri_ce [netD_cls fake, Var_cat]] m4 in
      eval_in m5 (py_mul_tensor (l_gan_w t) (Call M_cri_ce [netD_cls fake, Var_cat]))
        (\<lambda>l_g_cls.
      let l_g_total = Add (Add l_g_total l_g_gan) l_g_cls
      in Done (emit [Backward l_g_total, Step Optimizer_G_SFT] m5))))))))"

text \<open>
  The discriminator part, from \<^verbatim>\<open>self.optimizer_D.zero_grad()\<close> to
  \<^verbatim>\<open>self.optimizer_D.step()\<close>. The continuation takes the new training attributes
  (\<^verbatim>\<open>random_pt\<close> may have been resized) and \<^verbatim>\<open>l_d_gp\<close> where it has been computed.
\<close>

definition discriminator_update ::
  "training \<Rightarrow> tval \<Rightarrow> model \<Rightarrow> (training \<Rightarrow> tval option \<Rightarrow> model \<Rightarrow> outcome) \<Rightarrow> outcome"
  where
  "discriminator_update t fake m k =
     (let m1 = emit [Zero_grad Optimizer_D] m in
      attr m1 ''netD'' (netD_mode m1) (\<lambda>_.
      attr m1 ''var_H'' (var_H m1) (\<lambda>batch_size.
      let m2 = emit [Forward M_netD [Var_H],
                     Forward M_cri_gan [netD_pred Var_H, Target True]] m1 in
      attr m2 ''var_cat'' (var_cat m2) (\<lambda>_.
      let m3 = emit [Forward M_cri_ce [netD_cls Var_H, Var_cat],
                     Forward M_netD [Detach fake],
                     Forward M_cri_gan [netD_pred (Detach fake), Target False],
                     Forward M_cri_ce [netD_cls (Detach fake), Var_cat]] m2;
          l_d_total = Add (Add (Add l_d_real l_d_cls_real) (l_d_fake fake)) (l_d_cls_fake fake)
      in
      eval_in m3 (bind_err (getitem (opt m3) ''train'') (\<lambda>train_opt.
                  getitem train_opt ''gan_type'')) (\<lambda>gan_type.
      if gan_type = PStr ''wgan-gp'' then
        attr m3 ''random_pt'' (random_pt t) (\<lambda>size0.
        let resize = (size0 \<noteq> batch_size);
            t' = (if resize then t\<lparr>random_pt := Some batch_size\<rparr> else t);
            m4 = emit ((if resize then [Resize_random_pt batch_size] else [])
                       @ [Uniform_random_pt, Forward M_netD [interp fake]]) m3
        in
        attr m4 ''l_gp_w'' (l_gp_w t') (\<lambda>w.
        let m5 = emit [Forward M_cri_gp [interp fake, netD_pred (interp fake)]] m4 in
        eval_in m5 (py_mul_tensor w (Call M_cri_gp [interp fake, netD_pred (interp fake)]))
          (\<lambda>l_d_gp.
        let l_d_total = Add l_d_total l_d_gp
        in k t' (Some l_d_gp) (emit [Backward l_d_total, Step Optimizer_D] m5))))
      else k t None (emit [Backward l_d_total, Step Optimizer_D] m3))))))"

text \<open>The assignments to \<^verbatim>\<open>self.log_dict\<close> that end \<^verbatim>\<open>optimize_parameters\<close>.\<close>

definition set_log ::
  "int \<Rightarrow> training \<Rightarrow> tval \<Rightarrow> tval option \<Rightarrow> model \<Rightarrow> outcome" where
  "set_log step t fake gp m =
     eval_in m (gate step t) (\<lambda>g.
     (if g then
        (\<lambda>k. (if cri_pix t \<noteq> None then
                 (\<lambda>k. attr m ''l_pix_w'' (l_pix_w t) (\<lambda>w.
                       k (AList.update ''l_g_pix'' (Data0 (l_g_pix w fake)) (log_dict t))))
               else (\<lambda>k. k (log_dict t)))
              (\<lambda>log.
              (if cri_fea t \<noteq> None then
                 (\<lambda>k. attr m ''l_fea_w'' (l_fea_w t) (\<lambda>w.
                       k (AList.update ''l_g_fea'' (Data0 (l_g_fea w fake)) log)))
               else (\<lambda>k. k log))
              (\<lambda>log. k (AList.update ''l_g_gan'' (Data0 (l_g_gan (l_gan_w t) fake)) log))))
      else (\<lambda>k. k (log_dict t)))
     (\<lambda>log.
     let log = AList.update ''l_d_real'' (Data0 l_d_real) log;
         log = AList.update ''l_d_fake'' (Data0 (l_d_fake fake)) log;
         log = AList.update ''l_d_cls_real'' (Data0 l_d_cls_real) log;
         log = AList.update ''l_d_cls_fake'' (Data0 (l_d_cls_fake fake)) log
     in
     eval_in m (bind_err (getitem (opt m) ''train'') (\<lambda>train_opt.
                getitem train_opt ''gan_type'')) (\<lambda>gan_type.
     (if gan_type = PStr ''wgan-gp'' then
        (\<lambda>k. attr m ''l_d_gp'' gp (\<lambda>l. k (AList.update ''l_d_gp'' (Data0 l) log)))
      else (\<lambda>k. k log))
     (\<lambda>log.
     let log = AList.update ''D_real'' (Mean_data (netD_pred Var_H)) log;
         log = AList.update ''D_fake'' (Mean_data (netD_pred (Detach fake))) log
     in Done (m\<lparr>tr := Some (t\<lparr>log_dict := log\<rparr>)\<rparr>)))))"

definition optimize_parameters :: "int \<Rightarrow> model \<Rightarrow> outcome" where
  "optimize_parameters step m =
     attr m ''optimizer_G_SFT'' (tr m) (\<lambda>t.
     let m1 = emit [Zero_grad Optimizer_G_SFT, Zero_grad Optimizer_G_other] m in
     attr m1 ''var_L'' (var_L m1) (\<lambda>_.
     attr m1 ''var_seg'' (var_seg m1) (\<lambda>_.
     let fake = Call M_netG [Tuple [Var_L, Var_seg]];
         m2 = (emit [Forward M_netG [Tuple [Var_L, Var_seg]]] m1)\<lparr>fake_H := Some fake\<rparr>
     in
     eval_in m2 (gate step t) (\<lambda>g.
     and_then (if g then generator_update t fake m2 else Done m2) (\<lambda>m3.
     let m4 = (if step > 20000 then emit [Step Optimizer_G_other] m3 else m3) in
     discriminator_update t fake m4 (\<lambda>t' gp m5.
     set_log step t' fake gp m5))))))"

definition test :: "model \<Rightarrow> outcome" where
  "test m =
     (let m1 = (emit [Set_eval M_netG] m)\<lparr>netG_mode := Eval_mode\<rparr> in
      attr m1 ''var_L'' (var_L m1) (\<lambda>_.
      attr m1 ''var_seg'' (var_seg m1) (\<lambda>_.
      let m2 = (emit [Forward M_netG [Tuple [Var_L, Var_seg]]] m1)
                 \<lparr>fake_H := Some (Call M_netG [Tuple [Var_L, Var_seg]])\<rparr>
      in Done ((emit [Set_train M_netG] m2)\<lparr>netG_mode := Train_mode\<rparr>))))"

section \<open>Vocabulary of the properties\<close>

text \<open>The events that a call appends to the trace.\<close>

definition new_events :: "model \<Rightarrow> model \<Rightarrow> event list" where
  "new_events m m' = drop (length (trace m)) (trace m')"

fun is_File_write :: "event \<Rightarrow> bool" where
  "is_File_write (File_write path md text) = True"
| "is_File_write _ = False"

definition file_writes :: "event list \<Rightarrow> event list" where
  "file_writes es = filter is_File_write es"

fun is_Backward :: "event \<Rightarrow> bool" where
  "is_Backward (Backward l) = True"
| "is_Backward _ = False"

text \<open>A forward pass of the generator \<^verbatim>\<open>netG\<close>.\<close>

fun is_generator_forward :: "event \<Rightarrow> bool" where
  "is_generator_forward (Forward f args) = (f = M_netG)"
| "is_generator_forward _ = False"

text \<open>
  The events of one \<^verbatim>\<open>optimize_parameters\<close> call before and from
  \<^verbatim>\<open>self.optimizer_D.zero_grad()\<close>.
\<close>

definition generator_part :: "event list \<Rightarrow> event list" where
  "generator_part es = takeWhile (\<lambda>e. e \<noteq> Zero_grad Optimizer_D) es"

definition discriminator_part :: "event list \<Rightarrow> event list" where
  "discriminator_part es = dropWhile (\<lambda>e. e \<noteq> Zero_grad Optimizer_D) es"

text \<open>The terms of a sum, from left to right; the initial \<^verbatim>\<open>0\<close> is none.\<close>

fun summands :: "tval \<Rightarrow> tval list" where
  "summands (Add a b) = summands a @ summands b"
| "summands Zero = []"
| "summands t = [t]"

text \<open>\<open>mentions x t\<close>: the symbolic value \<open>t\<close> is built from \<open>x\<close>.\<close>

fun mentions :: "tval \<Rightarrow> tval \<Rightarrow> bool" where
  "mentions x (Tuple ts) = (x = Tuple ts \<or> (\<exists>t \<in> set ts. mentions x t))"
| "mentions x (Call f ts) = (x = Call f ts \<or> (\<exists>t \<in> set ts. mentions x t))"
| "mentions x (Item i t) = (x = Item i t \<or> mentions x t)"
| "mentions x (Detach t) = (x = Detach t \<or> mentions x t)"
| "mentions x (Requires_grad t) = (x = Requires_grad t \<or> mentions x t)"
| "mentions x (Weighted w t) = (x = Weighted w t \<or> mentions x t)"
| "mentions x (Add a b) = (x = Add a b \<or> mentions x a \<or> mentions x b)"
| "mentions x (Mul a b) = (x = Mul a b \<or> mentions x a \<or> mentions x b)"
| "mentions x (One_minus t) = (x = One_minus t \<or> mentions x t)"
| "mentions x (Data0 t) = (x = Data0 t \<or> mentions x t)"
| "mentions x (Mean_data t) = (x = Mean_data t \<or> mentions x t)"
| "mentions x t = (x = t)"

text \<open>\<^verbatim>\<open>feed_data\<close> has set the four input tensors.\<close>

definition fed :: "model \<Rightarrow> bool" where
  "fed m \<longleftrightarrow> var_L m \<noteq> None \<and> var_seg m \<noteq> None \<and> var_cat m \<noteq> None \<and> var_H m \<noteq> None"

text \<open>
  The model has been initialised for training from the options \<open>train_opt\<close>: its
  training attributes \<open>t\<close> are the ones that \<^verbatim>\<open>__init__\<close> computes from them. The log
  and the size of \<^verbatim>\<open>random_pt\<close>, which \<^verbatim>\<open>optimize_parameters\<close> changes, are free.
\<close>

definition configured :: "framework \<Rightarrow> pyval \<Rightarrow> training \<Rightarrow> bool" where
  "configured fwk train_opt t \<longleftrightarrow>
     criterion_from_opt train_opt ''pixel_weight'' ''pixel_criterion''
       = Inr (cri_pix t, l_pix_w t) \<and>
     criterion_from_opt train_opt ''feature_weight'' ''feature_criterion''
       = Inr (cri_fea t, l_fea_w t) \<and>
     netF t = (cri_fea t \<noteq> None) \<and>
     getitem train_opt ''gan_type'' = Inr (cri_gan t) \<and>
     getitem train_opt ''gan_weight'' = Inr (l_gan_w t) \<and>
     getitem_or train_opt ''D_update_ratio'' (PInt 1) = Inr (D_update_ratio t) \<and>
     getitem_or train_opt ''D_init_iters'' (PInt 0) = Inr (D_init_iters t) \<and>
     (case gp_from_opt train_opt of
        Inl e \<Rightarrow> False
      | Inr (r, w) \<Rightarrow> l_gp_w t = w \<and> (random_pt t = None \<longleftrightarrow> r = None)) \<and>
     make_optimizers fwk train_opt
       = Inr (optimizer_G_SFT t, optimizer_G_other t, optimizer_D t) \<and>
     make_schedulers train_opt = Inr (schedulers t)"

definition initialised :: "model \<Rightarrow> pyval \<Rightarrow> training \<Rightarrow> bool" where
  "initialised m train_opt t \<longleftrightarrow>
     tr m = Some t \<and> is_train m \<and> netD_mode m \<noteq> None \<and>
     getitem (opt m) ''train'' = Inr train_opt \<and>
     configured (fw m) train_opt t"

text \<open>
  The weights that \<^verbatim>\<open>optimize_parameters\<close> multiplies loss tensors with are numbers:
  \<^verbatim>\<open>l_gan_w\<close> and, for \<^verbatim>\<open>'wgan-gp'\<close>, \<^verbatim>\<open>l_gp_w\<close>. (The weights \<^verbatim>\<open>l_pix_w\<close> and
  \<^verbatim>\<open>l_fea_w\<close> of an initialised model are numbers, since \<^verbatim>\<open>__init__\<close> has compared them
  with 0.)
\<close>

definition numeric_weights :: "training \<Rightarrow> bool" where
  "numeric_weights t \<longleftrightarrow>
     py_num (l_gan_w t) \<noteq> None \<and>
     (cri_gan t = PStr ''wgan-gp'' \<longrightarrow>
        (case l_gp_w t of None \<Rightarrow> False | Some w \<Rightarrow> py_num w \<noteq> None))"

text \<open>
  The calls of one \<^verbatim>\<open>optimize_parameters(step)\<close> on an initialised and fed model, where
  \<open>g\<close> is the value of the condition of the generator update and the weights are
  numbers. The lemma
  \<open>optimize_parameters_Done\<close> below proves that these are the calls the function makes.
\<close>

definition the_fake :: tval where
  "the_fake = Call M_netG [Tuple [Var_L, Var_seg]]"

definition l_g_total :: "training \<Rightarrow> tval \<Rightarrow> tval" where
  "l_g_total t fake =
     (let l0 = Zero;
          l1 = (case (cri_pix t, l_pix_w t) of
                  (Some c, Some w) \<Rightarrow> Add l0 (l_g_pix w fake) | _ \<Rightarrow> l0);
          l2 = (case (cri_fea t, l_fea_w t) of
                  (Some c, Some w) \<Rightarrow> Add l1 (l_g_fea w fake) | _ \<Rightarrow> l1)
      in Add (Add l2 (l_g_gan (l_gan_w t) fake)) (l_g_cls (l_gan_w t) fake))"

definition generator_calls :: "training \<Rightarrow> tval \<Rightarrow> event list" where
  "generator_calls t fake =
     (if cri_pix t \<noteq> None then [Forward M_cri_pix [fake, Var_H]] else [])
     @ (if cri_fea t \<noteq> None
        then [Forward M_netF [Var_H], Forward M_netF [fake],
              Forward M_cri_fea [Call M_netF [fake], Detach (Call M_netF [Var_H])]]
        else [])
     @ [Forward M_netD [fake],
        Forward M_cri_gan [netD_pred fake, Target True],
        Forward M_cri_ce [netD_cls fake, Var_cat],
        Backward (l_g_total t fake),
        Step Optimizer_G_SFT]"

definition l_d_total :: "training \<Rightarrow> tval \<Rightarrow> tval" where
  "l_d_total t fake =
     (let l = Add (Add (Add l_d_real l_d_cls_real) (l_d_fake fake)) (l_d_cls_fake fake)
      in case (cri_gan t = PStr ''wgan-gp'', l_gp_w t) of
           (True, Some w) \<Rightarrow> Add l (l_d_gp w fake)
         | _ \<Rightarrow> l)"

definition discriminator_calls :: "training \<Rightarrow> nat \<Rightarrow> tval \<Rightarrow> event list" where
  "discriminator_calls t batch_size fake =
     [Zero_grad Optimizer_D,
      Forward M_netD [Var_H],
      Forward M_cri_gan [netD_pred Var_H, Target True],
      Forward M_cri_ce [netD_cls Var_H, Var_cat],
      Forward M_netD [Detach fake],
      Forward M_cri_gan [netD_pred (Detach fake), Target False],
      Forward M_cri_ce [netD_cls (Detach fake), Var_cat]]
     @ (if cri_gan t = PStr ''wgan-gp''
        then (if random_pt t \<noteq> Some batch_size then [Resize_random_pt batch_size] else [])
             @ [Uniform_random_pt,
                Forward M_netD [interp fake],
                Forward M_cri_gp [interp fake, netD_pred (interp fake)]]
        else [])
     @ [Backward (l_d_total t fake), Step Optimizer_D]"

definition generator_section :: "int \<Rightarrow> bool \<Rightarrow> training \<Rightarrow> event list" where
  "generator_section step g t =
     [Zero_grad Optimizer_G_SFT, Zero_grad Optimizer_G_other,
      Forward M_netG [Tuple [Var_L, Var_seg]]]
     @ (if g then generator_calls t the_fake else [])
     @ (if step > 20000 then [Step Optimizer_G_other] else [])"

definition step_calls :: "int \<Rightarrow> bool \<Rightarrow> training \<Rightarrow> nat \<Rightarrow> event list" where
  "step_calls step g t batch_size =
     generator_section step g t @ discriminator_calls t batch_size the_fake"

text \<open>The training attributes after the step: \<^verbatim>\<open>random_pt\<close> has the size of the batch.\<close>

definition resized :: "training \<Rightarrow> nat \<Rightarrow> training" where
  "resized t batch_size =
     (case random_pt t of
        None \<Rightarrow> t
      | Some size0 \<Rightarrow>
          if cri_gan t = PStr ''wgan-gp'' \<and> size0 \<noteq> batch_size
          then t\<lparr>random_pt := Some batch_size\<rparr> else t)"

definition gp_term :: "training \<Rightarrow> tval \<Rightarrow> tval option" where
  "gp_term t fake =
     (case (cri_gan t = PStr ''wgan-gp'', l_gp_w t) of
        (True, Some w) \<Rightarrow> Some (l_d_gp w fake)
      | _ \<Rightarrow> None)"

section \<open>A concrete configuration\<close>

text \<open>
  A training configuration, the model that \<^verbatim>\<open>__init__\<close> builds from it and the model
  after one \<^verbatim>\<open>feed_data\<close>; the properties below are instantiated on them.
\<close>

definition ex_train :: pyval where
  "ex_train = PDict
     [(''pixel_weight'', PInt 1), (''pixel_criterion'', PStr ''l1''),
      (''feature_weight'', PInt 1), (''feature_criterion'', PStr ''l2''),
      (''gan_type'', PStr ''wgan-gp''), (''gan_weight'', PInt 1),
      (''D_update_ratio'', PInt 2), (''D_init_iters'', PInt 3),
      (''gp_weigth'', PInt 10),
      (''lr_G'', PInt 1), (''beta1_G'', PInt 1),
      (''lr_D'', PInt 1), (''beta1_D'', PInt 1),
      (''lr_scheme'', PStr ''MultiStepLR''),
      (''lr_steps'', PList [PInt 50000]), (''lr_gamma'', PInt 1)] (Some PNone)"

definition ex_opt :: pyval where
  "ex_opt = PDict
     [(''train'', ex_train), (''is_train'', PBool True),
      (''path'', PDict [] (Some PNone))] (Some PNone)"

definition ex_fw :: framework where
  "ex_fw = \<lparr>named_parameters_G = [(''a.SFT.w'', 0), (''conv.w'', 1), (''CondNet.b'', 2)],
            parameters_D = [3],
            get_network_description = (\<lambda>_. (''net'', 7))\<rparr>"

definition ex_training :: training where
  "ex_training =
     \<lparr>cri_pix = Some L1Loss, l_pix_w = Some (PInt 1),
      cri_fea = Some MSELoss, l_fea_w = Some (PInt 1), netF = True,
      cri_gan = PStr ''wgan-gp'', l_gan_w = PInt 1,
      D_update_ratio = PInt 2, D_init_iters = PInt 3,
      random_pt = Some 1, l_gp_w = Some (PInt 10),
      optimizer_G_SFT =
        \<lparr>params = [0, 2], lr = PInt 5, weight_decay = PInt 0,
         betas = (PInt 1, PFloat 0.999)\<rparr>,
      optimizer_G_other =
        \<lparr>params = [1], lr = PInt 1, weight_decay = PInt 0,
         betas = (PInt 1, PFloat 0.999)\<rparr>,
      optimizer_D =
        \<lparr>params = [3], lr = PInt 1, weight_decay = PInt 0,
         betas = (PInt 1, PFloat 0.999)\<rparr>,
      schedulers =
        [\<lparr>optimizer = Optimizer_G_SFT, milestones = PList [PInt 50000], gamma = PInt 1\<rparr>,
         \<lparr>optimizer = Optimizer_G_other, milestones = PList [PInt 50000], gamma = PInt 1\<rparr>,
         \<lparr>optimizer = Optimizer_D, milestones = PList [PInt 50000], gamma = PInt 1\<rparr>],
      log_dict = []\<rparr>"

definition ex_init_trace :: "event list" where
  "ex_init_trace =
     [Define M_netG, Define M_netD, Set_train M_netG, Set_train M_netD, Define M_netF,
      Print ''---------- Model initialized ------------------'' [],
      Print ''Number of parameters in G: {:,d}'' [PInt 7],
      File_write ''exp/models/../network.txt'' ''w''
        ''-------------- Generator --------------\<newline>net\<newline>'',
      Print ''Number of parameters in D: {:,d}'' [PInt 7],
      File_write ''exp/models/../network.txt'' ''a''
        ''\<newline>\<newline>\<newline>-------------- Discriminator --------------\<newline>net\<newline>'',
      Print ''Number of parameters in F: {:,d}'' [PInt 7],
      File_write ''exp/models/../network.txt'' ''a''
        ''\<newline>\<newline>\<newline>-------------- Perceptual Network --------------\<newline>net\<newline>'',
      Print ''-----------------------------------------------'' []]"

definition ex_model0 :: model where
  "ex_model0 =
     \<lparr>fw = ex_fw, opt = ex_opt, is_train = True, save_dir = ''exp/models'',
      use_gpu = False, netG_mode = Train_mode, netD_mode = Some Train_mode,
      tr = Some ex_training,
      var_L = None, var_seg = None, var_cat = None, var_H = None,
      fake_H = None, trace = ex_init_trace\<rparr>"

definition ex_batch :: batch where
  "ex_batch = \<lparr>LR = 4, seg = 4, category = 4, HR = Some 4\<rparr>"

definition ex_model :: model where
  "ex_model = ex_model0\<lparr>var_L := Some 4, var_seg := Some 4, var_cat := Some 4,
                         var_H := Some 4\<rparr>"

text \<open>
  \<open>quiet es\<close>: the events write no file and do not include the message that
  \<^verbatim>\<open>__init__\<close> prints once the model is set up.
\<close>

fun outcome_model :: "outcome \<Rightarrow> model" where
  "outcome_model (Raised e m) = m"
| "outcome_model (Done m) = m"

definition init_marker :: event where
  "init_marker = Print ''---------- Model initialized ------------------'' []"

definition quiet :: "event list \<Rightarrow> bool" where
  "quiet es \<longleftrightarrow> file_writes es = [] \<and> init_marker \<notin> set es"

text \<open>
  \<open>quiet_step m m'\<close>: the model \<open>m'\<close> is \<open>m\<close> after quiet events, perhaps with other
  training attributes.
\<close>

definition quiet_step :: "model \<Rightarrow> model \<Rightarrow> bool" where
  "quiet_step m m' \<longleftrightarrow> (\<exists>es. quiet es \<and> m' = (emit es m)\<lparr>tr := tr m'\<rparr>)"

text \<open>What \<^verbatim>\<open>print_network\<close> writes in training mode.\<close>

definition network_writes :: "model \<Rightarrow> bool \<Rightarrow> event list" where
  "network_writes m feature_loss =
     [File_write (network_path m) ''w''
        (''-------------- Generator --------------\<newline>''
         @ fst (get_network_description (fw m) M_netG) @ ''\<newline>''),
      File_write (network_path m) ''a''
        (''\<newline>\<newline>\<newline>-------------- Discriminator --------------\<newline>''
         @ fst (get_network_description (fw m) M_netD) @ ''\<newline>'')]
     @ (if feature_loss
        then [File_write (network_path m) ''a''
                (''\<newline>\<newline>\<newline>-------------- Perceptual Network --------------\<newline>''
                 @ fst (get_network_description (fw m) M_netF) @ ''\<newline>'')]
        else [])"

text \<open>
  The model of \<^verbatim>\<open>__init__\<close> once the networks are defined, before \<^verbatim>\<open>self.load()\<close>.
\<close>

definition init_nets :: "framework \<Rightarrow> pyval \<Rightarrow> bool \<Rightarrow> string \<Rightarrow> bool \<Rightarrow> model" where
  "init_nets fwk opt' is_train' save_dir' use_gpu' =
     \<lparr>fw = fwk, opt = opt', is_train = is_train', save_dir = save_dir',
      use_gpu = use_gpu', netG_mode = Train_mode,
      netD_mode = (if is_train' then Some Train_mode else None), tr = None,
      var_L = None, var_seg = None, var_cat = None, var_H = None, fake_H = None,
      trace = Define M_netG
              # (if is_train' then [Define M_netD, Set_train M_netG, Set_train M_netD]
                 else [])\<rparr>"

text \<open>
  The options that the training block of \<^verbatim>\<open>__init__\<close> reads before it builds the
  schedulers are read without an exception.
\<close>

definition reads_before_schedulers :: "framework \<Rightarrow> pyval \<Rightarrow> bool" where
  "reads_before_schedulers fwk train_opt \<longleftrightarrow>
     \<not> isl (criterion_from_opt train_opt ''pixel_weight'' ''pixel_criterion'') \<and>
     \<not> isl (criterion_from_opt train_opt ''feature_weight'' ''feature_criterion'') \<and>
     \<not> isl (getitem train_opt ''gan_type'') \<and>
     \<not> isl (getitem train_opt ''gan_weight'') \<and>
     \<not> isl (getitem_or train_opt ''D_update_ratio'' (PInt 1)) \<and>
     \<not> isl (getitem_or train_opt ''D_init_iters'' (PInt 0)) \<and>
     \<not> isl (gp_from_opt train_opt) \<and>
     \<not> isl (make_optimizers fwk train_opt)"

text \<open>Further configurations: defaults, and an unrecognised value for one option.\<close>

definition ex_train_defaults :: pyval where
  "ex_train_defaults = PDict
     [(''pixel_weight'', PInt 1), (''pixel_criterion'', PStr ''l1''),
      (''feature_weight'', PInt 0),
      (''gan_type'', PStr ''wgan-gp''), (''gan_weight'', PInt 1),
      (''D_init_iters'', PInt 0),
      (''gp_weigth'', PInt 10), (''gp_weight'', PInt 7),
      (''lr_G'', PInt 1), (''beta1_G'', PInt 1),
      (''lr_D'', PInt 1), (''beta1_D'', PInt 1),
      (''lr_scheme'', PStr ''MultiStepLR''),
      (''lr_steps'', PList [PInt 50000]), (''lr_gamma'', PInt 1)] (Some PNone)"

definition ex_opt_defaults :: pyval where
  "ex_opt_defaults = PDict
     [(''train'', ex_train_defaults), (''is_train'', PBool True),
      (''path'', PDict [] (Some PNone))] (Some PNone)"

definition ex_model_defaults :: model where
  "ex_model_defaults = outcome_model (init ex_fw ex_opt_defaults True ''exp/models'' False)"

definition with_option :: "string \<Rightarrow> pyval \<Rightarrow> pyval \<Rightarrow> pyval" where
  "with_option k v d =
     (case d of PDict kvs dflt \<Rightarrow> PDict (AList.update k v kvs) dflt | _ \<Rightarrow> d)"

definition ex_opt_with :: "string \<Rightarrow> pyval \<Rightarrow> pyval" where
  "ex_opt_with k v = with_option ''train'' (with_option k v ex_train) ex_opt"

section \<open>Lemmas\<close>

lemma str_in_iff: "str_in sub s \<longleftrightarrow> (\<exists>ps ss. s = ps @ sub @ ss)"
proof (induction s)
  case Nil
  then show ?case by auto
next
  case (Cons c cs)
  have "take (length sub) (c # cs) = sub \<longleftrightarrow> (\<exists>ss. c # cs = sub @ ss)"
    by (metis append_eq_conv_conj append_take_drop_id)
  moreover have "(\<exists>ps ss. c # cs = ps @ sub @ ss) \<longleftrightarrow>
      (\<exists>ss. c # cs = sub @ ss) \<or> (\<exists>ps ss. cs = ps @ sub @ ss)"
  proof
    assume "\<exists>ps ss. c # cs = ps @ sub @ ss"
    then obtain ps ss where e: "c # cs = ps @ sub @ ss" by blast
    show "(\<exists>ss. c # cs = sub @ ss) \<or> (\<exists>ps ss. cs = ps @ sub @ ss)"
    proof (cases ps)
      case Nil
      with e show ?thesis by auto
    next
      case (Cons p ps')
      with e have "cs = ps' @ sub @ ss" by simp
      then show ?thesis by blast
    qed
  next
    assume "(\<exists>ss. c # cs = sub @ ss) \<or> (\<exists>ps ss. cs = ps @ sub @ ss)"
    then show "\<exists>ps ss. c # cs = ps @ sub @ ss"
    proof
      assume "\<exists>ss. c # cs = sub @ ss"
      then obtain ss where "c # cs = [] @ sub @ ss" by auto
      then show ?thesis by blast
    next
      assume "\<exists>ps ss. cs = ps @ sub @ ss"
      then obtain ps ss where "c # cs = (c # ps) @ sub @ ss" by auto
      then show ?thesis by blast
    qed
  qed
  ultimately show ?case using Cons.IH by simp
qed

lemma bind_err_Inr_iff:
  "bind_err r k = Inr y \<longleftrightarrow> (\<exists>x. r = Inr x \<and> k x = Inr y)"
  by (cases r) (simp_all add: bind_err_def)

lemma bind_err_simps [simp]:
  "bind_err (Inl e) k = Inl e" "bind_err (Inr x) k = k x"
  by (simp_all add: bind_err_def)

lemma eval_in_simps [simp]:
  "eval_in m (Inl e) k = Raised e m" "eval_in m (Inr x) k = k x"
  by (simp_all add: eval_in_def)

lemma attr_simps [simp]:
  "attr m name None k = Raised (AttributeError name) m" "attr m name (Some x) k = k x"
  by (simp_all add: attr_def)

lemma and_then_simps [simp]:
  "and_then (Raised e m) k = Raised e m" "and_then (Done m) k = k m"
  by (simp_all add: and_then_def)

lemma emit_fields [simp]:
  "trace (emit es m) = trace m @ es"
  "fw (emit es m) = fw m" "opt (emit es m) = opt m" "is_train (emit es m) = is_train m"
  "save_dir (emit es m) = save_dir m" "use_gpu (emit es m) = use_gpu m"
  "netG_mode (emit es m) = netG_mode m" "netD_mode (emit es m) = netD_mode m"
  "tr (emit es m) = tr m" "var_L (emit es m) = var_L m" "var_seg (emit es m) = var_seg m"
  "var_cat (emit es m) = var_cat m" "var_H (emit es m) = var_H m"
  "fake_H (emit es m) = fake_H m"
  by (simp_all add: emit_def)

lemma emit_emit [simp]: "emit es (emit es' m) = emit (es' @ es) m"
  by (simp add: emit_def)

lemma criterion_from_opt_shape:
  assumes "criterion_from_opt train_opt wk ck = Inr (c, w)"
  shows "(c = None \<longleftrightarrow> w = None)"
  using assms
  by (auto simp: criterion_from_opt_def bind_err_Inr_iff split: if_splits)

lemma criterion_from_opt_numeric:
  assumes "criterion_from_opt train_opt wk ck = Inr (c, Some w)"
  shows "py_num w \<noteq> None"
  using assms
  by (auto simp: criterion_from_opt_def bind_err_Inr_iff py_gt_int_def
      split: if_splits option.splits)

lemma initialised_pix:
  assumes "initialised m train_opt t" "cri_pix t \<noteq> None"
  shows "\<exists>w. l_pix_w t = Some w \<and> py_num w \<noteq> None"
proof -
  have c: "criterion_from_opt train_opt ''pixel_weight'' ''pixel_criterion''
      = Inr (cri_pix t, l_pix_w t)"
    using assms(1) by (simp add: initialised_def configured_def)
  from criterion_from_opt_shape [OF c] assms(2) obtain w where w: "l_pix_w t = Some w"
    by auto
  with c criterion_from_opt_numeric [of train_opt _ _ "cri_pix t" w] show ?thesis by simp
qed

lemma initialised_fea:
  assumes "initialised m train_opt t" "cri_fea t \<noteq> None"
  shows "netF t \<and> (\<exists>w. l_fea_w t = Some w \<and> py_num w \<noteq> None)"
proof -
  have c: "criterion_from_opt train_opt ''feature_weight'' ''feature_criterion''
      = Inr (cri_fea t, l_fea_w t)"
    and n: "netF t = (cri_fea t \<noteq> None)"
    using assms(1) by (simp_all add: initialised_def configured_def)
  from criterion_from_opt_shape [OF c] assms(2) obtain w where w: "l_fea_w t = Some w"
    by auto
  with c n assms(2) criterion_from_opt_numeric [of train_opt _ _ "cri_fea t" w]
  show ?thesis by simp
qed

lemma py_mul_tensor_numeric:
  "py_num w \<noteq> None \<Longrightarrow> py_mul_tensor w x = Inr (Weighted w x)"
  by (auto simp: py_mul_tensor_def)

lemma py_mul_tensor_TypeError:
  "py_num w = None \<Longrightarrow> py_mul_tensor w x = Inl TypeError"
  by (simp add: py_mul_tensor_def)

lemma initialised_gp:
  assumes "initialised m train_opt t" "cri_gan t = PStr ''wgan-gp''"
  shows "\<exists>w r. getitem train_opt ''gp_weigth'' = Inr w \<and> l_gp_w t = Some w \<and> random_pt t = Some r"
proof -
  have g: "getitem train_opt ''gan_type'' = Inr (PStr ''wgan-gp'')"
    using assms by (simp add: initialised_def configured_def)
  have c: "case gp_from_opt train_opt of Inl e \<Rightarrow> False
     | Inr (r, w) \<Rightarrow> l_gp_w t = w \<and> (random_pt t = None \<longleftrightarrow> r = None)"
    using assms(1) by (simp add: initialised_def configured_def)
  show ?thesis
  proof (cases "getitem train_opt ''gp_weigth''")
    case (Inl e)
    with g c show ?thesis by (simp add: gp_from_opt_def)
  next
    case (Inr w)
    with g c show ?thesis by (auto simp add: gp_from_opt_def)
  qed
qed

lemma initialised_gan_type:
  "initialised m train_opt t \<Longrightarrow>
   bind_err (getitem (opt m) ''train'') (\<lambda>train_opt. getitem train_opt ''gan_type'')
     = Inr (cri_gan t)"
  by (simp add: initialised_def configured_def)

lemma generator_update_Done:
  assumes "initialised m train_opt t" "fed m" "py_num (l_gan_w t) \<noteq> None"
  shows "generator_update t fake m = Done (emit (generator_calls t fake) m)"
proof -
  obtain b where H: "var_H m = Some b" using assms(2) by (auto simp: fed_def)
  obtain c where C: "var_cat m = Some c" using assms(2) by (auto simp: fed_def)
  obtain d where D: "netD_mode m = Some d"
    using assms(1) by (auto simp: initialised_def configured_def)
  note N = py_mul_tensor_numeric [OF assms(3)]
  note defs = generator_update_def generator_calls_def l_g_total_def
    l_g_pix_def l_g_fea_def l_g_gan_def l_g_cls_def Let_def
  show ?thesis
  proof (cases "cri_pix t")
    case None
    note P = this
    show ?thesis
    proof (cases "cri_fea t")
      case None
      with P H C D N show ?thesis
        by (simp add: defs)
    next
      case (Some cf)
      then obtain wf where "netF t" "l_fea_w t = Some wf" "py_num wf \<noteq> None"
        using initialised_fea [OF assms(1)] by auto
      with P Some H C D N show ?thesis
        by (simp add: defs py_mul_tensor_numeric)
    qed
  next
    case (Some cp)
    note P = this
    then obtain wp where W: "l_pix_w t = Some wp" "py_num wp \<noteq> None"
      using initialised_pix [OF assms(1)] by auto
    show ?thesis
    proof (cases "cri_fea t")
      case None
      with P W H C D N show ?thesis
        by (simp add: defs py_mul_tensor_numeric)
    next
      case (Some cf)
      then obtain wf where "netF t" "l_fea_w t = Some wf" "py_num wf \<noteq> None"
        using initialised_fea [OF assms(1)] by auto
      with P W Some H C D N show ?thesis
        by (simp add: defs py_mul_tensor_numeric)
    qed
  qed
qed

lemma discriminator_update_Done:
  assumes "initialised m train_opt t" "var_H m = Some batch_size" "var_cat m = Some c"
    and "numeric_weights t"
  shows "discriminator_update t fake m k =
           k (resized t batch_size) (gp_term t fake)
             (emit (discriminator_calls t batch_size fake) m)"
proof -
  obtain d where D: "netD_mode m = Some d" using assms(1) by (auto simp: initialised_def configured_def)
  note G = initialised_gan_type [OF assms(1)]
  show ?thesis
  proof (cases "cri_gan t = PStr ''wgan-gp''")
    case False
    with D G assms(2,3) show ?thesis
      by (simp add: discriminator_update_def discriminator_calls_def l_d_total_def
          resized_def gp_term_def l_d_real_def l_d_cls_real_def split: option.splits)
  next
    case True
    then obtain w r where W: "l_gp_w t = Some w" "random_pt t = Some r"
      using initialised_gp [OF assms(1)] by auto
    have "py_num w \<noteq> None"
      using assms(4) True W(1) by (simp add: numeric_weights_def)
    note N = py_mul_tensor_numeric [OF this]
    from True W D G N assms(2,3) show ?thesis
      by (simp add: discriminator_update_def discriminator_calls_def l_d_total_def
          resized_def gp_term_def l_d_real_def l_d_cls_real_def l_d_gp_def Let_def)
  qed
qed

lemma gate_cong:
  "D_update_ratio t' = D_update_ratio t \<Longrightarrow> D_init_iters t' = D_init_iters t \<Longrightarrow>
   gate step t' = gate step t"
  by (simp add: gate_def cong: if_cong)

lemma gate_resized [simp]: "gate step (resized t b) = gate step t"
  by (rule gate_cong) (simp_all add: resized_def split: option.splits)

lemma set_log_Done:
  assumes "initialised m train_opt t" "gate step t' = Inr g"
    and "cri_pix t' = cri_pix t" "l_pix_w t' = l_pix_w t"
    and "cri_fea t' = cri_fea t" "l_fea_w t' = l_fea_w t"
    and "opt m' = opt m"
  shows "\<exists>log. set_log step t' fake (gp_term t fake) m'
           = Done (m'\<lparr>tr := Some (t'\<lparr>log_dict := log\<rparr>)\<rparr>)"
proof -
  have G: "bind_err (getitem (opt m') ''train'') (\<lambda>train_opt. getitem train_opt ''gan_type'')
     = Inr (cri_gan t)"
    using initialised_gan_type [OF assms(1)] assms(7) by simp
  define wp where "wp = the (l_pix_w t')"
  define wf where "wf = the (l_fea_w t')"
  define gp where "gp = the (gp_term t fake)"
  have P: "cri_pix t' \<noteq> None \<Longrightarrow> l_pix_w t' = Some wp"
    using initialised_pix [OF assms(1)] assms(3,4) by (auto simp: wp_def)
  have F: "cri_fea t' \<noteq> None \<Longrightarrow> l_fea_w t' = Some wf"
    using initialised_fea [OF assms(1)] assms(5,6) by (auto simp: wf_def)
  have GP: "cri_gan t = PStr ''wgan-gp'' \<Longrightarrow> gp_term t fake = Some gp"
    using initialised_gp [OF assms(1)] by (auto simp: gp_term_def gp_def)
  have 1: "(if cri_pix t' \<noteq> None
            then (\<lambda>k. attr m' ''l_pix_w'' (l_pix_w t') (\<lambda>w. k (A w)))
            else (\<lambda>k. k B)) K
           = K (if cri_pix t' \<noteq> None then A wp else B)" for A B K
    using P by (cases "cri_pix t'") simp_all
  have 2: "(if cri_fea t' \<noteq> None
            then (\<lambda>k. attr m' ''l_fea_w'' (l_fea_w t') (\<lambda>w. k (A w)))
            else (\<lambda>k. k B)) K
           = K (if cri_fea t' \<noteq> None then A wf else B)" for A B K
    using F by (cases "cri_fea t'") simp_all
  have 3: "(if cri_gan t = PStr ''wgan-gp''
            then (\<lambda>k. attr m' ''l_d_gp'' (gp_term t fake) (\<lambda>l. k (A l)))
            else (\<lambda>k. k B)) K
           = K (if cri_gan t = PStr ''wgan-gp'' then A gp else B)" for A B K
    using GP by (cases "cri_gan t = PStr ''wgan-gp''") simp_all
  have 4: "(if g then (\<lambda>k. k A) else (\<lambda>k. k B)) K = K (if g then A else B)" for A B K
    by simp
  show ?thesis
    unfolding set_log_def assms(2) G eval_in_simps 1 2 3 4 Let_def
    by (rule exI, rule refl)
qed


lemma resized_fields [simp]:
  "cri_pix (resized t b) = cri_pix t" "l_pix_w (resized t b) = l_pix_w t"
  "cri_fea (resized t b) = cri_fea t" "l_fea_w (resized t b) = l_fea_w t"
  "netF (resized t b) = netF t" "cri_gan (resized t b) = cri_gan t"
  "l_gan_w (resized t b) = l_gan_w t" "l_gp_w (resized t b) = l_gp_w t"
  "D_update_ratio (resized t b) = D_update_ratio t"
  "D_init_iters (resized t b) = D_init_iters t"
  "optimizer_G_SFT (resized t b) = optimizer_G_SFT t"
  "optimizer_G_other (resized t b) = optimizer_G_other t"
  "optimizer_D (resized t b) = optimizer_D t"
  "schedulers (resized t b) = schedulers t"
  by (simp_all add: resized_def split: option.splits)

lemma resized_random_pt: "random_pt (resized t b) = None \<longleftrightarrow> random_pt t = None"
  by (simp add: resized_def split: option.splits)

lemma initialised_after_step:
  assumes "initialised m train_opt t"
    and "opt m' = opt m" "fw m' = fw m" "is_train m' = is_train m" "netD_mode m' = netD_mode m"
    and "tr m' = Some (resized t b\<lparr>log_dict := lg\<rparr>)"
  shows "initialised m' train_opt (resized t b\<lparr>log_dict := lg\<rparr>)"
  using assms unfolding initialised_def configured_def
  by (simp add: resized_random_pt split: sum.splits prod.splits)

lemma optimize_parameters_Done:
  assumes I: "initialised m train_opt t" and F: "fed m" and H: "var_H m = Some batch_size"
    and G: "gate step t = Inr g" and N: "numeric_weights t"
  shows "\<exists>lg. optimize_parameters step m
           = Done ((emit (step_calls step g t batch_size) m)
                    \<lparr>fake_H := Some the_fake,
                     tr := Some (resized t batch_size\<lparr>log_dict := lg\<rparr>)\<rparr>)"
proof -
  obtain l s c where V: "var_L m = Some l" "var_seg m = Some s" "var_cat m = Some c"
    using F by (auto simp: fed_def)
  have T: "tr m = Some t" using I by (simp add: initialised_def configured_def)
  define m2 where "m2 = (emit [Forward M_netG [Tuple [Var_L, Var_seg]]]
      (emit [Zero_grad Optimizer_G_SFT, Zero_grad Optimizer_G_other] m))
        \<lparr>fake_H := Some (Call M_netG [Tuple [Var_L, Var_seg]])\<rparr>"
  have I2: "initialised m2 train_opt t"
    using I by (simp add: initialised_def configured_def m2_def)
  have F2: "fed m2" using F by (simp add: fed_def m2_def)
  define m3 where "m3 = (if g then emit (generator_calls t the_fake) m2 else m2)"
  have gen: "(if g then generator_update t (Call M_netG [Tuple [Var_L, Var_seg]]) m2 else Done m2)
      = Done m3"
    using N by (simp add: m3_def generator_update_Done [OF I2 F2] the_fake_def
        numeric_weights_def)
  define m4 where "m4 = (if 20000 < step then emit [Step Optimizer_G_other] m3 else m3)"
  have I4: "initialised m4 train_opt t"
    using I2 by (simp add: initialised_def configured_def m4_def m3_def)
  have V4: "var_H m4 = Some batch_size" "var_cat m4 = Some c"
    using H V by (simp_all add: m4_def m3_def m2_def)
  define m5 where "m5 = emit (discriminator_calls t batch_size the_fake) m4"
  have dis: "discriminator_update t (Call M_netG [Tuple [Var_L, Var_seg]]) m4 k
      = k (resized t batch_size) (gp_term t the_fake) m5" for k
    by (simp add: m5_def discriminator_update_Done [OF I4 V4 N] the_fake_def)
  have G': "gate step (resized t batch_size) = Inr g" using G by simp
  have O5: "opt m5 = opt m4" by (simp add: m5_def)
  from set_log_Done [OF I4 G' resized_fields(1-4) O5, of the_fake]
  obtain lg where L: "set_log step (resized t batch_size) (Call M_netG [Tuple [Var_L, Var_seg]])
        (gp_term t the_fake) m5
      = Done (m5\<lparr>tr := Some (resized t batch_size\<lparr>log_dict := lg\<rparr>)\<rparr>)"
    unfolding the_fake_def by blast
  have O: "optimize_parameters step m
      = Done (m5\<lparr>tr := Some (resized t batch_size\<lparr>log_dict := lg\<rparr>)\<rparr>)"
    unfolding optimize_parameters_def Let_def
    by (simp only: T V G attr_simps eval_in_simps emit_fields m2_def [symmetric] gen
        and_then_simps m4_def [symmetric] dis L)
  have E: "m5 = (emit (step_calls step g t batch_size) m)\<lparr>fake_H := Some the_fake\<rparr>"
    by (simp add: m5_def m4_def m3_def m2_def step_calls_def generator_section_def emit_def
        the_fake_def)
  show ?thesis
    using O E by (intro exI [of _ lg]) simp
qed

text \<open>
  When a weight is not a number, the multiplication of the loss tensor with it raises
  \<^verbatim>\<open>TypeError\<close>: for \<^verbatim>\<open>l_gan_w\<close> on every step that updates the generator, for \<^verbatim>\<open>l_gp_w\<close>
  with \<^verbatim>\<open>'wgan-gp'\<close> on every step.
\<close>

lemma generator_update_TypeError:
  assumes "initialised m train_opt t" "fed m" "py_num (l_gan_w t) = None"
  shows "\<exists>m'. generator_update t fake m = Raised TypeError m'"
proof -
  obtain b where H: "var_H m = Some b" using assms(2) by (auto simp: fed_def)
  obtain c where C: "var_cat m = Some c" using assms(2) by (auto simp: fed_def)
  obtain d where D: "netD_mode m = Some d"
    using assms(1) by (auto simp: initialised_def configured_def)
  note N = py_mul_tensor_TypeError [OF assms(3)]
  note defs = generator_update_def Let_def
  show ?thesis
  proof (cases "cri_pix t")
    case None
    note P = this
    show ?thesis
    proof (cases "cri_fea t")
      case None
      with P H C D N show ?thesis
        by (simp add: defs)
    next
      case (Some cf)
      then obtain wf where "netF t" "l_fea_w t = Some wf" "py_num wf \<noteq> None"
        using initialised_fea [OF assms(1)] by auto
      with P Some H C D N show ?thesis
        by (simp add: defs py_mul_tensor_numeric)
    qed
  next
    case (Some cp)
    note P = this
    then obtain wp where W: "l_pix_w t = Some wp" "py_num wp \<noteq> None"
      using initialised_pix [OF assms(1)] by auto
    show ?thesis
    proof (cases "cri_fea t")
      case None
      with P W H C D N show ?thesis
        by (simp add: defs py_mul_tensor_numeric)
    next
      case (Some cf)
      then obtain wf where "netF t" "l_fea_w t = Some wf" "py_num wf \<noteq> None"
        using initialised_fea [OF assms(1)] by auto
      with P W Some H C D N show ?thesis
        by (simp add: defs py_mul_tensor_numeric)
    qed
  qed
qed

lemma discriminator_update_TypeError:
  assumes "initialised m train_opt t" "var_H m = Some batch_size" "var_cat m = Some c"
    and "cri_gan t = PStr ''wgan-gp''" "l_gp_w t = Some w" "py_num w = None"
  shows "\<exists>m'. discriminator_update t fake m k = Raised TypeError m'"
proof -
  obtain d where D: "netD_mode m = Some d"
    using assms(1) by (auto simp: initialised_def configured_def)
  have G: "bind_err (getitem (opt m) ''train'') (\<lambda>train_opt. getitem train_opt ''gan_type'')
      = Inr (cri_gan t)"
    using initialised_gan_type [OF assms(1)] .
  obtain r where R: "random_pt t = Some r"
    using initialised_gp [OF assms(1)] assms(4) by auto
  note N = py_mul_tensor_TypeError [OF assms(6)]
  from assms(2-5) D G R N show ?thesis
    by (simp add: discriminator_update_def Let_def)
qed

lemma optimize_parameters_TypeError_gan_weight:
  assumes I: "initialised m train_opt t" and F: "fed m"
    and G: "gate step t = Inr True" and N: "py_num (l_gan_w t) = None"
  shows "\<exists>m'. optimize_parameters step m = Raised TypeError m'"
proof -
  obtain l s c where V: "var_L m = Some l" "var_seg m = Some s" "var_cat m = Some c"
    using F by (auto simp: fed_def)
  have T: "tr m = Some t" using I by (simp add: initialised_def configured_def)
  define m2 where "m2 = (emit [Forward M_netG [Tuple [Var_L, Var_seg]]]
      (emit [Zero_grad Optimizer_G_SFT, Zero_grad Optimizer_G_other] m))
        \<lparr>fake_H := Some (Call M_netG [Tuple [Var_L, Var_seg]])\<rparr>"
  have I2: "initialised m2 train_opt t"
    using I by (simp add: initialised_def configured_def m2_def)
  have F2: "fed m2" using F by (simp add: fed_def m2_def)
  from generator_update_TypeError [OF I2 F2 N]
  obtain m' where gen: "generator_update t (Call M_netG [Tuple [Var_L, Var_seg]]) m2
      = Raised TypeError m'" by blast
  have "optimize_parameters step m = Raised TypeError m'"
    unfolding optimize_parameters_def Let_def
    by (simp only: T V G attr_simps eval_in_simps emit_fields m2_def [symmetric] gen
        and_then_simps if_True)
  then show ?thesis by blast
qed

lemma optimize_parameters_TypeError_gp_weight:
  assumes I: "initialised m train_opt t" and F: "fed m"
    and G: "gate step t = Inr g" and N: "py_num (l_gan_w t) \<noteq> None"
    and W: "cri_gan t = PStr ''wgan-gp''" "l_gp_w t = Some w" "py_num w = None"
  shows "\<exists>m'. optimize_parameters step m = Raised TypeError m'"
proof -
  obtain l s c where V: "var_L m = Some l" "var_seg m = Some s" "var_cat m = Some c"
    using F by (auto simp: fed_def)
  obtain batch_size where H: "var_H m = Some batch_size" using F by (auto simp: fed_def)
  have T: "tr m = Some t" using I by (simp add: initialised_def configured_def)
  define m2 where "m2 = (emit [Forward M_netG [Tuple [Var_L, Var_seg]]]
      (emit [Zero_grad Optimizer_G_SFT, Zero_grad Optimizer_G_other] m))
        \<lparr>fake_H := Some (Call M_netG [Tuple [Var_L, Var_seg]])\<rparr>"
  have I2: "initialised m2 train_opt t"
    using I by (simp add: initialised_def configured_def m2_def)
  have F2: "fed m2" using F by (simp add: fed_def m2_def)
  define m3 where "m3 = (if g then emit (generator_calls t the_fake) m2 else m2)"
  have gen: "(if g then generator_update t (Call M_netG [Tuple [Var_L, Var_seg]]) m2 else Done m2)
      = Done m3"
    using N by (simp add: m3_def generator_update_Done [OF I2 F2] the_fake_def)
  define m4 where "m4 = (if 20000 < step then emit [Step Optimizer_G_other] m3 else m3)"
  have I4: "initialised m4 train_opt t"
    using I2 by (simp add: initialised_def configured_def m4_def m3_def)
  have V4: "var_H m4 = Some batch_size" "var_cat m4 = Some c"
    using H V by (simp_all add: m4_def m3_def m2_def)
  from discriminator_update_TypeError [OF I4 V4 W]
  obtain m' where dis: "discriminator_update t (Call M_netG [Tuple [Var_L, Var_seg]]) m4
      (\<lambda>t' gp m5. set_log step t' (Call M_netG [Tuple [Var_L, Var_seg]]) gp m5)
      = Raised TypeError m'" by blast
  have "optimize_parameters step m = Raised TypeError m'"
    unfolding optimize_parameters_def Let_def
    by (simp only: T V G attr_simps eval_in_simps emit_fields m2_def [symmetric] gen
        and_then_simps m4_def [symmetric] dis)
  then show ?thesis by blast
qed

lemma generator_calls_no_D: "Zero_grad Optimizer_D \<notin> set (generator_calls t fake)"
  by (simp add: generator_calls_def)

lemma generator_section_no_D: "Zero_grad Optimizer_D \<notin> set (generator_section step g t)"
  by (simp add: generator_section_def generator_calls_no_D)

lemma discriminator_calls_hd:
  "\<exists>es. discriminator_calls t b fake = Zero_grad Optimizer_D # es"
  by (simp add: discriminator_calls_def)

lemma generator_part_step_calls:
  "generator_part (step_calls step g t b) = generator_section step g t"
proof -
  obtain es where "discriminator_calls t b the_fake = Zero_grad Optimizer_D # es"
    using discriminator_calls_hd by blast
  then show ?thesis
    using generator_section_no_D [of step g t]
    by (auto simp: generator_part_def step_calls_def takeWhile_tail)
qed

lemma discriminator_part_step_calls:
  "discriminator_part (step_calls step g t b) = discriminator_calls t b the_fake"
proof -
  obtain es where "discriminator_calls t b the_fake = Zero_grad Optimizer_D # es"
    using discriminator_calls_hd by blast
  then show ?thesis
    using generator_section_no_D [of step g t]
    by (auto simp: discriminator_part_def step_calls_def dropWhile_append3)
qed

lemma optimize_parameters_events:
  assumes "initialised m train_opt t" "fed m" "var_H m = Some batch_size"
    "gate step t = Inr g" "numeric_weights t"
  shows "\<exists>m'. optimize_parameters step m = Done m'
          \<and> new_events m m' = step_calls step g t batch_size"
proof -
  from optimize_parameters_Done [OF assms] obtain lg where
    "optimize_parameters step m
       = Done ((emit (step_calls step g t batch_size) m)
                \<lparr>fake_H := Some the_fake,
                 tr := Some (resized t batch_size\<lparr>log_dict := lg\<rparr>)\<rparr>)" by blast
  then show ?thesis by (simp add: new_events_def)
qed

lemma step_calls_generator_forward:
  "filter is_generator_forward (step_calls step g t b) = [Forward M_netG [Tuple [Var_L, Var_seg]]]"
  by (simp add: step_calls_def generator_section_def generator_calls_def discriminator_calls_def)

lemma step_calls_category:
  assumes "Forward f args \<in> set (step_calls step g t b)" "a \<in> set args" "mentions Var_cat a"
  shows "f = M_cri_ce"
  using assms
  by (auto simp: step_calls_def generator_section_def generator_calls_def
      discriminator_calls_def the_fake_def interp_def netD_pred_def netD_cls_def
      split: if_splits)

lemma fed_var_H: "fed m \<Longrightarrow> \<exists>b. var_H m = Some b"
  by (auto simp: fed_def)

lemma gate_ints:
  assumes "D_update_ratio t = PInt r" "r \<noteq> 0" "D_init_iters t = PInt d"
  shows "gate step t = Inr (step mod r = 0 \<and> d < step)"
  using assms by (simp add: gate_def py_eq_int_def int_gt_py_def)

lemma summands_l_d_total:
  "summands (l_d_total t fake)
     = [l_d_real, l_d_cls_real, l_d_fake fake, l_d_cls_fake fake]
       @ (case gp_term t fake of None \<Rightarrow> [] | Some l \<Rightarrow> [l])"
  by (cases "cri_gan t = PStr ''wgan-gp''"; cases "l_gp_w t")
     (simp_all add: l_d_total_def gp_term_def l_d_real_def l_d_cls_real_def l_d_fake_def
        l_d_cls_fake_def l_d_gp_def Let_def)

lemma summands_l_g_total:
  "summands (l_g_total t fake)
     = (case (cri_pix t, l_pix_w t) of (Some c, Some w) \<Rightarrow> [l_g_pix w fake] | _ \<Rightarrow> [])
       @ (case (cri_fea t, l_fea_w t) of (Some c, Some w) \<Rightarrow> [l_g_fea w fake] | _ \<Rightarrow> [])
       @ [l_g_gan (l_gan_w t) fake, l_g_cls (l_gan_w t) fake]"
  by (cases "cri_pix t"; cases "l_pix_w t"; cases "cri_fea t"; cases "l_fea_w t")
     (simp_all add: l_g_total_def l_g_pix_def l_g_fea_def l_g_gan_def l_g_cls_def Let_def)

lemma criterion_from_opt_Inr:
  assumes "criterion_from_opt train_opt wk ck = Inr (c, w)"
  shows "\<exists>wv pos. getitem train_opt wk = Inr wv \<and> py_gt_int wv 0 = Inr pos \<and>
           (pos \<longrightarrow> c \<noteq> None \<and> w = Some wv) \<and> (\<not> pos \<longrightarrow> c = None \<and> w = None)"
  using assms
  by (auto simp: criterion_from_opt_def bind_err_Inr_iff split: if_splits)

lemma filter_Backward_generator_section:
  "filter is_Backward (generator_section step g t)
     = (if g then [Backward (l_g_total t the_fake)] else [])"
  by (simp add: generator_section_def generator_calls_def)

lemma filter_Backward_discriminator_calls:
  "filter is_Backward (discriminator_calls t b fake) = [Backward (l_d_total t fake)]"
  by (simp add: discriminator_calls_def)

lemma initialised_weights:
  assumes "initialised m train_opt t"
  shows "\<exists>w_pix w_fea pos_pix pos_fea.
     getitem train_opt ''pixel_weight'' = Inr w_pix \<and> py_gt_int w_pix 0 = Inr pos_pix \<and>
     getitem train_opt ''feature_weight'' = Inr w_fea \<and> py_gt_int w_fea 0 = Inr pos_fea \<and>
     (cri_pix t \<noteq> None \<longleftrightarrow> pos_pix) \<and> (pos_pix \<longrightarrow> l_pix_w t = Some w_pix) \<and>
     (cri_fea t \<noteq> None \<longleftrightarrow> pos_fea) \<and> (pos_fea \<longrightarrow> l_fea_w t = Some w_fea)"
proof -
  have p: "criterion_from_opt train_opt ''pixel_weight'' ''pixel_criterion''
       = Inr (cri_pix t, l_pix_w t)"
    and f: "criterion_from_opt train_opt ''feature_weight'' ''feature_criterion''
       = Inr (cri_fea t, l_fea_w t)"
    using assms by (simp_all add: initialised_def configured_def)
  from criterion_from_opt_Inr [OF p] criterion_from_opt_Inr [OF f]
  show ?thesis by blast
qed

subsection \<open>\<^verbatim>\<open>__init__\<close>\<close>

lemma emit_Nil [simp]: "emit [] m = m"
  by (simp add: emit_def)

lemma quiet_simps [simp]:
  "quiet []" "quiet (es @ es') \<longleftrightarrow> quiet es \<and> quiet es'"
  by (auto simp: quiet_def file_writes_def)

lemma quiet_step_refl [simp, intro!]: "quiet_step m m"
  unfolding quiet_step_def by (rule exI [of _ "[]"]) simp

lemma quiet_step_emit [intro!]:
  assumes "quiet es" "quiet_step m m'"
  shows "quiet_step m (emit es m')"
proof -
  from assms(2) obtain es' where e: "quiet es'" "m' = (emit es' m)\<lparr>tr := tr m'\<rparr>"
    unfolding quiet_step_def by blast
  have "emit es m' = (emit (es' @ es) m)\<lparr>tr := tr (emit es m')\<rparr>"
    by (subst e(2)) (simp add: emit_def)
  with assms(1) e(1) show ?thesis
    unfolding quiet_step_def by (intro exI [of _ "es' @ es"]) simp
qed

lemma quiet_step_tr [intro!]:
  assumes "quiet_step m m'"
  shows "quiet_step m (m'\<lparr>tr := x\<rparr>)"
proof -
  from assms obtain es where e: "quiet es" "m' = (emit es m)\<lparr>tr := tr m'\<rparr>"
    unfolding quiet_step_def by blast
  have "m'\<lparr>tr := x\<rparr> = (emit es m)\<lparr>tr := tr (m'\<lparr>tr := x\<rparr>)\<rparr>"
    by (subst e(2)) simp
  with e(1) show ?thesis unfolding quiet_step_def by blast
qed

lemma quiet_step_trans:
  assumes "quiet_step m m'" "quiet_step m' m''"
  shows "quiet_step m m''"
proof -
  from assms obtain es es' where e: "quiet es" "m' = (emit es m)\<lparr>tr := tr m'\<rparr>"
    "quiet es'" "m'' = (emit es' m')\<lparr>tr := tr m''\<rparr>"
    unfolding quiet_step_def by blast
  have "m'' = (emit (es @ es') m)\<lparr>tr := tr m''\<rparr>"
    by (subst e(4), subst e(2)) (simp add: emit_def)
  with e(1,3) show ?thesis unfolding quiet_step_def by (intro exI [of _ "es @ es'"]) simp
qed

lemma quiet_step_fields:
  assumes "quiet_step m m'"
  shows "fw m' = fw m" "opt m' = opt m" "is_train m' = is_train m"
    "save_dir m' = save_dir m" "use_gpu m' = use_gpu m" "netG_mode m' = netG_mode m"
    "netD_mode m' = netD_mode m" "var_L m' = var_L m" "var_seg m' = var_seg m"
    "var_cat m' = var_cat m" "var_H m' = var_H m" "fake_H m' = fake_H m"
    "\<exists>es. quiet es \<and> trace m' = trace m @ es"
proof -
  from assms obtain es where e: "quiet es" "m' = (emit es m)\<lparr>tr := tr m'\<rparr>"
    unfolding quiet_step_def by blast
  show "fw m' = fw m" by (subst e(2)) simp
  show "opt m' = opt m" by (subst e(2)) simp
  show "is_train m' = is_train m" by (subst e(2)) simp
  show "save_dir m' = save_dir m" by (subst e(2)) simp
  show "use_gpu m' = use_gpu m" by (subst e(2)) simp
  show "netG_mode m' = netG_mode m" by (subst e(2)) simp
  show "netD_mode m' = netD_mode m" by (subst e(2)) simp
  show "var_L m' = var_L m" by (subst e(2)) simp
  show "var_seg m' = var_seg m" by (subst e(2)) simp
  show "var_cat m' = var_cat m" by (subst e(2)) simp
  show "var_H m' = var_H m" by (subst e(2)) simp
  show "fake_H m' = fake_H m" by (subst e(2)) simp
  have "trace m' = trace m @ es" by (subst e(2)) simp
  with e(1) show "\<exists>es. quiet es \<and> trace m' = trace m @ es" by blast
qed

lemma quiet_Cons [simp]:
  "quiet (e # es) \<longleftrightarrow> \<not> is_File_write e \<and> e \<noteq> init_marker \<and> quiet es"
  by (auto simp: quiet_def file_writes_def)

lemma load_quiet: "quiet_step m (outcome_model (load m))"
  unfolding load_def Let_def eval_in_def attr_def
  by (auto simp: init_marker_def split: sum.splits option.splits)

lemma load_tr: "tr (outcome_model (load m)) = tr m"
  unfolding load_def Let_def eval_in_def attr_def
  by (auto split: sum.splits option.splits)


lemma eval_in_DoneE:
  assumes "eval_in m r k = Done m'"
  obtains v where "r = Inr v" "k v = Done m'"
  using assms by (cases r) (simp_all add: eval_in_def)

lemma Let_eqE:
  assumes "Let a f = y"
  obtains x where "x = a" "f x = y"
  using assms by (simp add: Let_def)

lemma case_prod_eqE:
  assumes "(case p of (a, b) \<Rightarrow> f a b) = y"
  obtains a b where "p = (a, b)" "f a b = y"
  using assms by (cases p) simp

lemma case_prod3_eqE:
  assumes "(case p of (a, b, c) \<Rightarrow> f a b c) = y"
  obtains a b c where "p = (a, b, c)" "f a b c = y"
  using assms by (cases p) auto

lemma init_train_Done:
  assumes "init_train train_opt m = Done m'"
  shows "\<exists>t. tr m' = Some t \<and> configured (fw m) train_opt t \<and> log_dict t = []"
  using assms unfolding init_train_def
  apply (elim eval_in_DoneE Let_eqE case_prod_eqE case_prod3_eqE)
  apply (clarsimp simp: configured_def if_distrib [of fw] cong: if_cong)
  done


lemma quiet_eval_in:
  assumes "quiet_step m0 m" "\<And>v. r = Inr v \<Longrightarrow> quiet_step m0 (outcome_model (k v))"
  shows "quiet_step m0 (outcome_model (eval_in m r k))"
  using assms by (cases r) (simp_all add: eval_in_def)

lemma quiet_case_prod:
  assumes "\<And>a b. p = (a, b) \<Longrightarrow> quiet_step m0 (outcome_model (f a b))"
  shows "quiet_step m0 (outcome_model (case p of (a, b) \<Rightarrow> f a b))"
  using assms by (cases p) simp

lemma quiet_case_prod3:
  assumes "\<And>a b c. p = (a, b, c) \<Longrightarrow> quiet_step m0 (outcome_model (f a b c))"
  shows "quiet_step m0 (outcome_model (case p of (a, b, c) \<Rightarrow> f a b c))"
  using assms by (cases p) auto

lemma quiet_Let:
  assumes "\<And>x. x = a \<Longrightarrow> quiet_step m0 (outcome_model (f x))"
  shows "quiet_step m0 (outcome_model (Let a f))"
  using assms by (simp add: Let_def)

lemma quiet_step_if:
  assumes "quiet es" "quiet_step m0 m"
  shows "quiet_step m0 (if c then emit es m else m)"
  using assms by auto

lemma cuda_calls_quiet:
  assumes "(if g then cuda_calls train_opt c1 c2 else Inr []) = Inr es"
  shows "quiet es"
  using assms
  by (auto simp: cuda_calls_def bind_err_Inr_iff init_marker_def split: if_splits)

lemma init_train_quiet: "quiet_step m (outcome_model (init_train train_opt m))"
  unfolding init_train_def
  apply (intro quiet_eval_in quiet_case_prod quiet_case_prod3 quiet_Let)
  apply (auto simp: init_marker_def dest: cuda_calls_quiet)
  done


lemma and_then_DoneE:
  assumes "and_then r k = Done m'"
  obtains m1 where "r = Done m1" "k m1 = Done m'"
  using assms by (cases r) simp_all

lemma and_then_RaisedE:
  assumes "and_then r k = Raised e m'"
  obtains "r = Raised e m'" | m1 where "r = Done m1" "k m1 = Raised e m'"
  using assms by (cases r) simp_all

lemma eval_in_RaisedE:
  assumes "eval_in m r k = Raised e m'"
  obtains "r = Inl e" "m' = m" | v where "r = Inr v" "k v = Raised e m'"
  using assms by (cases r) simp_all

lemma print_network_test:
  assumes "\<not> is_train m"
  shows "\<exists>m'. print_network m = Done m' \<and> file_writes (new_events m m') = [] \<and>
           init_marker \<notin> set (new_events m m') \<and>
           trace m' = trace m @ new_events m m' \<and> m' = m\<lparr>trace := trace m'\<rparr>"
  using assms
  by (simp add: print_network_def Let_def new_events_def file_writes_def emit_def
      init_marker_def split: prod.splits)

lemma print_network_training:
  assumes "is_train m" "netD_mode m \<noteq> None" "tr m = Some t" "netF t = (cri_fea t \<noteq> None)"
  shows "\<exists>m'. print_network m = Done m' \<and>
           file_writes (new_events m m') = network_writes m (cri_fea t \<noteq> None) \<and>
           init_marker \<notin> set (new_events m m') \<and>
           trace m' = trace m @ new_events m m' \<and> m' = m\<lparr>trace := trace m'\<rparr>"
proof (cases "cri_fea t")
  case None
  with assms show ?thesis
    by (auto simp: print_network_def Let_def new_events_def file_writes_def emit_def
        network_writes_def network_path_def init_marker_def split: prod.splits)
next
  case (Some c)
  with assms show ?thesis
    by (auto simp: print_network_def Let_def new_events_def file_writes_def emit_def
        network_writes_def network_path_def init_marker_def split: prod.splits)
qed



lemma init_DoneE:
  assumes "init fwk opt' it sd gpu = Done m"
  obtains train_opt m3 m4 m5 where
    "getitem opt' ''train'' = Inr train_opt"
    "load (init_nets fwk opt' it sd gpu) = Done m3"
    "(if is_train m3 then init_train train_opt m3 else Done m3) = Done m4"
    "print_network (emit [init_marker] m4) = Done m5"
    "m = emit [Print ''-----------------------------------------------'' []] m5"
proof -
  from assms show thesis unfolding init_def
  proof (elim Let_eqE eval_in_DoneE and_then_DoneE, goal_cases)
    case (1 x v xa xb m1 m1a m1b)
    have xb: "xb = init_nets fwk opt' it sd gpu"
      using 1(1,3,4) by (simp add: init_nets_def emit_def)
    show ?case
      by (rule that [of v m1 m1a m1b]) (use 1 xb in \<open>simp_all add: init_marker_def\<close>)
  qed
qed

lemma init_RaisedE:
  assumes "init fwk opt' it sd gpu = Raised e m"
  obtains
    (train) "getitem opt' ''train'' = Inl e" "trace m = []"
  | (load) train_opt where "getitem opt' ''train'' = Inr train_opt"
      "load (init_nets fwk opt' it sd gpu) = Raised e m"
  | (init_train) train_opt m3 where "getitem opt' ''train'' = Inr train_opt"
      "load (init_nets fwk opt' it sd gpu) = Done m3"
      "is_train m3" "init_train train_opt m3 = Raised e m"
  | (print_network) train_opt m3 m4 where "getitem opt' ''train'' = Inr train_opt"
      "load (init_nets fwk opt' it sd gpu) = Done m3"
      "(if is_train m3 then init_train train_opt m3 else Done m3) = Done m4"
      "print_network (emit [init_marker] m4) = Raised e m"
proof -
  from assms show thesis unfolding init_def
  proof (elim Let_eqE eval_in_RaisedE and_then_RaisedE, goal_cases)
    case (1 x)
    then show ?case by (intro train) simp_all
  next
    case (2 x v xa xb)
    have xb: "xb = init_nets fwk opt' it sd gpu"
      using 2 by (simp add: init_nets_def emit_def)
    show ?case by (rule load [of v]) (use 2 xb in simp_all)
  next
    case (3 x v xa xb m1)
    have xb: "xb = init_nets fwk opt' it sd gpu"
      using 3 by (simp add: init_nets_def emit_def)
    show ?case by (rule init_train [of v m1]) (use 3 xb in \<open>simp_all split: if_splits\<close>)
  next
    case (4 x v xa xb m1 m1a)
    have xb: "xb = init_nets fwk opt' it sd gpu"
      using 4 by (simp add: init_nets_def emit_def)
    show ?case
      by (rule print_network [of v m1 m1a]) (use 4 xb in \<open>simp_all add: init_marker_def\<close>)
  next
    case (5 x v xa xb m1 m1a m1b)
    then show ?case by simp
  qed
qed


lemma not_File_write_init_marker [simp]: "\<not> is_File_write init_marker"
  by (simp add: init_marker_def)

lemma init_nets_fields [simp]:
  "fw (init_nets fwk opt' it sd gpu) = fwk" "opt (init_nets fwk opt' it sd gpu) = opt'"
  "is_train (init_nets fwk opt' it sd gpu) = it" "save_dir (init_nets fwk opt' it sd gpu) = sd"
  "use_gpu (init_nets fwk opt' it sd gpu) = gpu"
  "netD_mode (init_nets fwk opt' it sd gpu) = (if it then Some Train_mode else None)"
  "tr (init_nets fwk opt' it sd gpu) = None"
  "quiet (trace (init_nets fwk opt' it sd gpu))"
  by (simp_all add: init_nets_def init_marker_def)

lemma network_writes_cong:
  "fw m' = fw m \<Longrightarrow> save_dir m' = save_dir m \<Longrightarrow> network_writes m' b = network_writes m b"
  by (simp add: network_writes_def network_path_def)

lemma after_load:
  assumes "load (init_nets fwk opt' it sd gpu) = Done m3"
  shows "fw m3 = fwk" "opt m3 = opt'" "is_train m3 = it" "save_dir m3 = sd"
    "use_gpu m3 = gpu" "netD_mode m3 = (if it then Some Train_mode else None)"
    "tr m3 = None" "quiet (trace m3)"
proof -
  let ?m2 = "init_nets fwk opt' it sd gpu"
  have q: "quiet_step ?m2 m3" using load_quiet [of ?m2] assms by simp
  note f = quiet_step_fields [OF q]
  show "fw m3 = fwk" "opt m3 = opt'" "is_train m3 = it" "save_dir m3 = sd"
    "use_gpu m3 = gpu" "netD_mode m3 = (if it then Some Train_mode else None)"
    using f(1-7) by simp_all
  show "tr m3 = None" using load_tr [of ?m2] assms by simp
  from f(13) obtain es where "quiet es" "trace m3 = trace ?m2 @ es" by blast
  then show "quiet (trace m3)" by simp
qed

lemma init_Done_training:
  assumes "init fwk opt' True sd gpu = Done m"
  shows "\<exists>train_opt t. getitem opt' ''train'' = Inr train_opt \<and> initialised m train_opt t \<and>
           log_dict t = [] \<and> fw m = fwk \<and> opt m = opt' \<and> save_dir m = sd \<and>
           file_writes (trace m) = network_writes m (cri_fea t \<noteq> None)"
proof -
  from assms obtain train_opt m3 m4 m5 where
    t: "getitem opt' ''train'' = Inr train_opt"
    and l: "load (init_nets fwk opt' True sd gpu) = Done m3"
    and i: "(if is_train m3 then init_train train_opt m3 else Done m3) = Done m4"
    and p: "print_network (emit [init_marker] m4) = Done m5"
    and m: "m = emit [Print ''-----------------------------------------------'' []] m5"
    by (rule init_DoneE)
  note a = after_load [OF l]
  have i': "init_train train_opt m3 = Done m4" using i a(3) by simp
  from init_train_Done [OF i'] obtain t where
    tt: "tr m4 = Some t" "configured (fw m3) train_opt t" "log_dict t = []" by blast
  have q: "quiet_step m3 m4" using init_train_quiet [of m3 train_opt] i' by simp
  note f = quiet_step_fields [OF q]
  from f(13) obtain es where es: "quiet es" "trace m4 = trace m3 @ es" by blast
  let ?m4 = "emit [init_marker] m4"
  have n: "netF t = (cri_fea t \<noteq> None)" using tt(2) by (simp add: configured_def)
  have "is_train ?m4" "netD_mode ?m4 \<noteq> None" "tr ?m4 = Some t"
    using a f tt(1) by simp_all
  from print_network_training [OF this n] p
  have w: "file_writes (new_events ?m4 m5) = network_writes ?m4 (cri_fea t \<noteq> None)"
    and tr5: "trace m5 = trace ?m4 @ new_events ?m4 m5"
    and m5: "m5 = ?m4\<lparr>trace := trace m5\<rparr>"
    by auto
  have fields: "fw m5 = fwk" "opt m5 = opt'" "save_dir m5 = sd" "is_train m5"
    "netD_mode m5 \<noteq> None" "tr m5 = Some t"
    using a f tt(1) by (subst m5, simp)+
  have I: "initialised m train_opt t"
    using fields t tt(2) a(1) by (simp add: initialised_def m)
  have "file_writes (trace m) = file_writes (new_events ?m4 m5)"
    using a(8) es tr5 by (simp add: m quiet_def file_writes_def)
  also have "\<dots> = network_writes m (cri_fea t \<noteq> None)"
    unfolding w using fields a f by (intro network_writes_cong) (simp_all add: m)
  finally show ?thesis using t I tt(3) fields by (auto simp: m)
qed

lemma init_Done_test:
  assumes "init fwk opt' False sd gpu = Done m"
  shows "file_writes (trace m) = []" "tr m = None"
proof -
  from assms obtain train_opt m3 m4 m5 where
    l: "load (init_nets fwk opt' False sd gpu) = Done m3"
    and i: "(if is_train m3 then init_train train_opt m3 else Done m3) = Done m4"
    and p: "print_network (emit [init_marker] m4) = Done m5"
    and m: "m = emit [Print ''-----------------------------------------------'' []] m5"
    by (rule init_DoneE)
  note a = after_load [OF l]
  have m4: "m4 = m3" using i a(3) by simp
  let ?m4 = "emit [init_marker] m4"
  have "\<not> is_train ?m4" using a m4 by simp
  from print_network_test [OF this] p
  have w: "file_writes (new_events ?m4 m5) = []"
    and tr5: "trace m5 = trace ?m4 @ new_events ?m4 m5"
    and m5: "m5 = ?m4\<lparr>trace := trace m5\<rparr>"
    by auto
  show "file_writes (trace m) = []"
    using a(8) w tr5 m4 by (simp add: m quiet_def file_writes_def)
  have "tr m5 = None" using a m4 by (subst m5) simp
  then show "tr m = None" by (simp add: m)
qed

lemma init_Raised_quiet:
  assumes "init fwk opt' it sd gpu = Raised e m"
  shows "quiet (trace m)"
  using assms
proof (cases rule: init_RaisedE)
  case train
  then show ?thesis by simp
next
  case (load train_opt)
  let ?m2 = "init_nets fwk opt' it sd gpu"
  have "quiet_step ?m2 m" using load_quiet [of ?m2] load(2) by simp
  from quiet_step_fields(13) [OF this] show ?thesis by auto
next
  case (init_train train_opt m3)
  have "quiet_step m3 m" using init_train_quiet [of m3 train_opt] init_train(4) by simp
  from quiet_step_fields(13) [OF this] after_load(8) [OF init_train(2)]
  show ?thesis by auto
next
  case (print_network train_opt m3 m4)
  note a = after_load [OF print_network(2)]
  let ?m4 = "emit [init_marker] m4"
  show ?thesis
  proof (cases it)
    case False
    then have "m4 = m3" using print_network(3) a(3) by simp
    then have "\<not> is_train ?m4" using a False by simp
    from print_network_test [OF this] print_network(4) show ?thesis by auto
  next
    case True
    then have i': "init_train train_opt m3 = Done m4" using print_network(3) a(3) by simp
    from init_train_Done [OF i'] obtain t where
      tt: "tr m4 = Some t" "configured (fw m3) train_opt t" by blast
    have q: "quiet_step m3 m4" using init_train_quiet [of m3 train_opt] i' by simp
    note f = quiet_step_fields [OF q]
    have n: "netF t = (cri_fea t \<noteq> None)" using tt(2) by (simp add: configured_def)
    have "is_train ?m4" "netD_mode ?m4 \<noteq> None" "tr ?m4 = Some t"
      using a f tt(1) True by simp_all
    from print_network_training [OF this n] print_network(4) show ?thesis by auto
  qed
qed

lemma split_params_filter:
  "split_params kvs a b =
     (a @ map snd (filter (\<lambda>(k, v). str_in ''SFT'' k \<or> str_in ''Cond'' k) kvs),
      b @ map snd (filter (\<lambda>(k, v). \<not> (str_in ''SFT'' k \<or> str_in ''Cond'' k)) kvs))"
  by (induction kvs a b rule: split_params.induct) auto

lemma bind_err_InrE:
  assumes "bind_err r k = Inr y"
  obtains x where "r = Inr x" "k x = Inr y"
  using assms by (cases r) simp_all

lemma make_optimizers_Inr:
  assumes "make_optimizers fwk train_opt = Inr (oS, oO, oD)"
  shows "\<exists>lr_G wd_G beta1_G.
     getitem train_opt ''lr_G'' = Inr lr_G \<and>
     getitem_or train_opt ''weight_decay_G'' (PInt 0) = Inr wd_G \<and>
     getitem train_opt ''beta1_G'' = Inr beta1_G \<and>
     oS = \<lparr>params = map snd (filter (\<lambda>(k, v). str_in ''SFT'' k \<or> str_in ''Cond'' k)
                                (named_parameters_G fwk)),
            lr = lr oS, weight_decay = wd_G, betas = (beta1_G, PFloat 0.999)\<rparr> \<and>
     py_mul_int lr_G 5 = Inr (lr oS) \<and>
     oO = \<lparr>params = map snd (filter (\<lambda>(k, v). \<not> (str_in ''SFT'' k \<or> str_in ''Cond'' k))
                                (named_parameters_G fwk)),
            lr = lr_G, weight_decay = wd_G, betas = (beta1_G, PFloat 0.999)\<rparr>"
  using assms unfolding make_optimizers_def
  apply (elim bind_err_InrE Let_eqE case_prod_eqE)
  apply (clarsimp simp: split_params_filter)
  done

lemma init_eq:
  "init fwk opt' it sd gpu =
     eval_in \<lparr>fw = fwk, opt = opt', is_train = it, save_dir = sd, use_gpu = gpu,
              netG_mode = Train_mode, netD_mode = None, tr = None,
              var_L = None, var_seg = None, var_cat = None, var_H = None,
              fake_H = None, trace = []\<rparr>
       (getitem opt' ''train'') (\<lambda>train_opt.
     and_then (load (init_nets fwk opt' it sd gpu)) (\<lambda>m3.
     and_then (if is_train m3 then init_train train_opt m3 else Done m3) (\<lambda>m4.
     and_then (print_network (emit [init_marker] m4)) (\<lambda>m5.
     Done (emit [Print ''-----------------------------------------------'' []] m5)))))"
  by (simp add: init_def Let_def init_nets_def emit_def init_marker_def)

lemma os_path_join_next_to:
  assumes "sd \<noteq> []" "last sd \<noteq> CHR ''/''"
  shows "os_path_join sd [''../'', ''network.txt''] = sd @ ''/../network.txt''"
  using assms by simp

lemma getitem_or_Inr:
  assumes "getitem_or d k dflt = Inr x"
  shows "\<exists>v. getitem d k = Inr v \<and> x = (if truthy v then v else dflt)"
  using assms by (auto simp: getitem_or_def bind_err_Inr_iff split: if_splits)

lemma gate_defaults:
  assumes "D_update_ratio t = PInt 1" "D_init_iters t = PInt 0"
  shows "gate step t = Inr (1 \<le> step)"
  using assms by (auto simp: gate_def py_eq_int_def int_gt_py_def)

lemma cuda_calls_Inr:
  assumes "getitem train_opt ''gan_type'' = Inr v"
  shows "\<exists>es. (if g then cuda_calls train_opt c1 c2 else Inr []) = Inr es"
  using assms by (simp add: cuda_calls_def)

lemma init_train_reads:
  assumes "criterion_from_opt train_opt ''pixel_weight'' ''pixel_criterion'' = Inr p"
    and "criterion_from_opt train_opt ''feature_weight'' ''feature_criterion'' = Inr f"
    and "getitem train_opt ''gan_type'' = Inr gt"
    and "getitem train_opt ''gan_weight'' = Inr gw"
    and "getitem_or train_opt ''D_update_ratio'' (PInt 1) = Inr r"
    and "getitem_or train_opt ''D_init_iters'' (PInt 0) = Inr i"
    and "gp_from_opt train_opt = Inr gp"
    and "make_optimizers (fw m) train_opt = Inr os"
  shows "\<exists>m'. init_train train_opt m
           = (case make_schedulers train_opt of
                Inl e \<Rightarrow> Raised e m'
              | Inr s \<Rightarrow> Done m')"
proof -
  obtain c1 w1 c2 w2 g1 g2 o1 o2 o3 where
    e: "p = (c1, w1)" "f = (c2, w2)" "gp = (g1, g2)" "os = (o1, o2, o3)"
    by (cases p; cases f; cases gp; cases os) auto
  define m3 where "m3 =
    (let m1 = (if c1 = None then emit [Print ''Remove pixel loss.'' []] m else m);
         m2 = (if c2 = None then emit [Print ''Remove feature loss.'' []] m1 else m1)
     in if c2 \<noteq> None then emit [Define M_netF] m2 else m2)"
  have f3: "fw m3 = fw m" by (simp add: m3_def Let_def)
  obtain es where es: "(if use_gpu m3 then cuda_calls train_opt c1 c2 else Inr []) = Inr es"
    using cuda_calls_Inr [OF assms(3)] by blast
  have "init_train train_opt m
      = eval_in (emit es m3) (make_schedulers train_opt) (\<lambda>scheds.
          Done ((emit es m3)\<lparr>tr := Some
            \<lparr>cri_pix = c1, l_pix_w = w1, cri_fea = c2, l_fea_w = w2,
             netF = (c2 \<noteq> None), cri_gan = gt, l_gan_w = gw,
             D_update_ratio = r, D_init_iters = i,
             random_pt = g1, l_gp_w = g2,
             optimizer_G_SFT = o1, optimizer_G_other = o2, optimizer_D = o3,
             schedulers = scheds, log_dict = []\<rparr>\<rparr>))"
    unfolding init_train_def assms(1-7) e eval_in_simps Let_def prod.case
      m3_def [unfolded Let_def, symmetric] es emit_fields f3 assms(8)
    by (rule refl)
  then show ?thesis
    by (cases "make_schedulers train_opt") (auto simp: eval_in_def)
qed

lemma init_returns:
  assumes "getitem opt' ''train'' = Inr train_opt"
    and "load (init_nets fwk opt' True sd gpu) = Done m3"
    and "init_train train_opt m3 = Done m4"
  shows "\<exists>m. init fwk opt' True sd gpu = Done m"
proof -
  note a = after_load [OF assms(2)]
  from init_train_Done [OF assms(3)] obtain t where
    tt: "tr m4 = Some t" "configured (fw m3) train_opt t" by blast
  have q: "quiet_step m3 m4" using init_train_quiet [of m3 train_opt] assms(3) by simp
  note f = quiet_step_fields [OF q]
  let ?m4 = "emit [init_marker] m4"
  have n: "netF t = (cri_fea t \<noteq> None)" using tt(2) by (simp add: configured_def)
  have "is_train ?m4" "netD_mode ?m4 \<noteq> None" "tr ?m4 = Some t"
    using a f tt(1) by simp_all
  from print_network_training [OF this n] obtain m5 where
    "print_network ?m4 = Done m5" by blast
  then show ?thesis
    unfolding init_eq using assms a(3) by simp
qed

subsection \<open>The concrete configuration\<close>

lemma ex_getitem_train: "getitem ex_opt ''train'' = Inr ex_train"
  by (simp add: ex_opt_def)

lemma ex_criteria:
  "criterion_from_opt ex_train ''pixel_weight'' ''pixel_criterion'' = Inr (Some L1Loss, Some (PInt 1))"
  "criterion_from_opt ex_train ''feature_weight'' ''feature_criterion'' = Inr (Some MSELoss, Some (PInt 1))"
  by (simp_all add: ex_train_def criterion_from_opt_def py_gt_int_def)

lemma ex_gan:
  "getitem ex_train ''gan_type'' = Inr (PStr ''wgan-gp'')"
  "getitem ex_train ''gan_weight'' = Inr (PInt 1)"
  "getitem_or ex_train ''D_update_ratio'' (PInt 1) = Inr (PInt 2)"
  "getitem_or ex_train ''D_init_iters'' (PInt 0) = Inr (PInt 3)"
  "gp_from_opt ex_train = Inr (Some 1, Some (PInt 10))"
  by (simp_all add: ex_train_def getitem_or_def gp_from_opt_def)

lemma ex_optimizers:
  "make_optimizers ex_fw ex_train
     = Inr (optimizer_G_SFT ex_training, optimizer_G_other ex_training, optimizer_D ex_training)"
  by (simp add: ex_train_def ex_fw_def ex_training_def make_optimizers_def getitem_or_def)

lemma ex_schedulers: "make_schedulers ex_train = Inr (schedulers ex_training)"
  by (simp add: ex_train_def ex_training_def make_schedulers_def)

lemma ex_initialised: "initialised ex_model ex_train ex_training"
  unfolding initialised_def configured_def
  using ex_getitem_train ex_criteria ex_gan ex_optimizers ex_schedulers
  by (simp add: ex_model_def ex_model0_def) (simp add: ex_training_def)

lemma ex_fed: "fed ex_model"
  by (simp add: fed_def ex_model_def)

lemma ex_numeric: "numeric_weights ex_training"
  by (simp add: numeric_weights_def ex_training_def)

lemma ex_gate: "gate 4 ex_training = Inr True"
  by (simp add: gate_def ex_training_def py_eq_int_def int_gt_py_def)

lemma ex_load: "load (init_nets ex_fw ex_opt True sd gpu) = Done (init_nets ex_fw ex_opt True sd gpu)"
  by (simp add: load_def ex_opt_def Let_def)

lemma ex_init_train:
  "init_train ex_train (init_nets ex_fw ex_opt True sd False)
     = Done ((emit [Define M_netF] (init_nets ex_fw ex_opt True sd False))
               \<lparr>tr := Some ex_training\<rparr>)"
  unfolding init_train_def ex_criteria ex_gan eval_in_simps
  by (simp add: Let_def ex_optimizers ex_schedulers ex_training_def)

lemma ex_print_network:
  "print_network
     (emit [init_marker]
        ((emit [Define M_netF] (init_nets ex_fw ex_opt True ''exp/models'' False))
           \<lparr>tr := Some ex_training\<rparr>))
   = Done (ex_model0\<lparr>trace := butlast ex_init_trace\<rparr>)"
  by (simp add: print_network_def Let_def ex_fw_def network_path_def ex_training_def
      init_nets_def emit_def ex_model0_def ex_init_trace_def init_marker_def)

lemma ex_init: "init ex_fw ex_opt True ''exp/models'' False = Done ex_model0"
  unfolding init_eq ex_getitem_train eval_in_simps ex_load and_then_simps
  by (simp add: ex_init_train ex_print_network)
     (simp add: ex_model0_def ex_init_trace_def emit_def)

lemma ex_feed_data: "feed_data ex_batch True ex_model0 = Done ex_model"
  by (simp add: feed_data_def ex_batch_def ex_model_def Let_def)

lemma ex_defaults_init:
  "init ex_fw ex_opt_defaults True ''exp/models'' False = Done ex_model_defaults"
proof -
  let ?m2 = "init_nets ex_fw ex_opt_defaults True ''exp/models'' False"
  have t: "getitem ex_opt_defaults ''train'' = Inr ex_train_defaults"
    by (simp add: ex_opt_defaults_def)
  have l: "load ?m2 = Done ?m2"
    by (simp add: load_def ex_opt_defaults_def Let_def)
  have c: "criterion_from_opt ex_train_defaults ''pixel_weight'' ''pixel_criterion''
      = Inr (Some L1Loss, Some (PInt 1))"
    "criterion_from_opt ex_train_defaults ''feature_weight'' ''feature_criterion''
      = Inr (None, None)"
    by (simp_all add: ex_train_defaults_def criterion_from_opt_def py_gt_int_def)
  have g: "getitem ex_train_defaults ''gan_type'' = Inr (PStr ''wgan-gp'')"
    "getitem ex_train_defaults ''gan_weight'' = Inr (PInt 1)"
    "getitem_or ex_train_defaults ''D_update_ratio'' (PInt 1) = Inr (PInt 1)"
    "getitem_or ex_train_defaults ''D_init_iters'' (PInt 0) = Inr (PInt 0)"
    "gp_from_opt ex_train_defaults = Inr (Some 1, Some (PInt 10))"
    by (simp_all add: ex_train_defaults_def getitem_or_def gp_from_opt_def)
  have "\<exists>os. make_optimizers (fw ?m2) ex_train_defaults = Inr os"
    by (simp add: ex_train_defaults_def make_optimizers_def getitem_or_def split: prod.splits)
  then obtain os where o: "make_optimizers (fw ?m2) ex_train_defaults = Inr os" by blast
  have "\<exists>s. make_schedulers ex_train_defaults = Inr s"
    by (simp add: ex_train_defaults_def make_schedulers_def)
  then obtain s where s: "make_schedulers ex_train_defaults = Inr s" by blast
  from init_train_reads [OF c g o] obtain m4 where
    "init_train ex_train_defaults ?m2 = Done m4" by (auto simp: s)
  from init_returns [OF t l this] show ?thesis
    by (auto simp: ex_model_defaults_def)
qed

text \<open>The exceptions of \<^verbatim>\<open>__init__\<close> for option values it does not recognise.\<close>

lemma criterion_from_opt_unrecognised:
  assumes "getitem train_opt wk = Inr w" "py_gt_int w 0 = Inr True"
    "getitem train_opt ck = Inr c" "c \<noteq> PStr ''l1''" "c \<noteq> PStr ''l2''"
  shows "criterion_from_opt train_opt wk ck = Inl (NotImplementedError_loss_type c)"
  using assms by (simp add: criterion_from_opt_def)

lemma make_schedulers_unrecognised:
  assumes "getitem train_opt ''lr_scheme'' = Inr s" "s \<noteq> PStr ''MultiStepLR''"
  shows "make_schedulers train_opt = Inl NotImplementedError_lr_scheme"
  using assms by (simp add: make_schedulers_def)

lemma init_train_Raised_pixel:
  assumes "criterion_from_opt train_opt ''pixel_weight'' ''pixel_criterion'' = Inl e"
  shows "init_train train_opt m = Raised e m"
  unfolding init_train_def assms by simp

lemma init_train_Raised_feature:
  assumes "criterion_from_opt train_opt ''pixel_weight'' ''pixel_criterion'' = Inr p"
    and "criterion_from_opt train_opt ''feature_weight'' ''feature_criterion'' = Inl e"
  shows "\<exists>m'. init_train train_opt m = Raised e m'"
proof -
  obtain c w where p: "p = (c, w)" by (cases p)
  show ?thesis
    unfolding init_train_def assms p eval_in_simps prod.case Let_def
    by blast
qed

lemma init_train_Raised_schedulers:
  assumes "reads_before_schedulers (fw m) train_opt"
    and "make_schedulers train_opt = Inl e"
  shows "\<exists>m'. init_train train_opt m = Raised e m'"
proof -
  from assms(1) obtain p f gt gw r i gp os where
    "criterion_from_opt train_opt ''pixel_weight'' ''pixel_criterion'' = Inr p"
    "criterion_from_opt train_opt ''feature_weight'' ''feature_criterion'' = Inr f"
    "getitem train_opt ''gan_type'' = Inr gt"
    "getitem train_opt ''gan_weight'' = Inr gw"
    "getitem_or train_opt ''D_update_ratio'' (PInt 1) = Inr r"
    "getitem_or train_opt ''D_init_iters'' (PInt 0) = Inr i"
    "gp_from_opt train_opt = Inr gp"
    "make_optimizers (fw m) train_opt = Inr os"
    unfolding reads_before_schedulers_def
    by (metis sum.collapse(2))
  from init_train_reads [OF this] show ?thesis by (simp add: assms(2))
qed

lemma init_Raised_from_init_train:
  assumes "getitem opt' ''train'' = Inr train_opt"
    and "load (init_nets fwk opt' True sd gpu) = Done m3"
    and "init_train train_opt m3 = Raised e m'"
  shows "init fwk opt' True sd gpu = Raised e m'"
  unfolding init_eq using assms after_load(3) [OF assms(2)] by simp

lemma init_raises:
  assumes "getitem opt' ''train'' = Inr train_opt"
    and "isl (criterion_from_opt train_opt ''pixel_weight'' ''pixel_criterion'')
         \<or> isl (criterion_from_opt train_opt ''feature_weight'' ''feature_criterion'')
         \<or> isl (make_schedulers train_opt)"
  shows "\<exists>e m. init fwk opt' True sd gpu = Raised e m \<and> quiet (trace m)"
proof (cases "init fwk opt' True sd gpu")
  case (Raised e m)
  with init_Raised_quiet [OF Raised] show ?thesis by blast
next
  case (Done m)
  from init_Done_training [OF Done] assms(1) obtain t where
    "initialised m train_opt t" by auto
  then have "configured (fw m) train_opt t" by (simp add: initialised_def)
  with assms(2) show ?thesis by (auto simp: configured_def)
qed

lemma ex_opt_with_train:
  "getitem (ex_opt_with k v) ''train'' = Inr (with_option k v ex_train)"
  by (simp add: ex_opt_with_def with_option_def ex_opt_def)

lemma ex_opt_with_load:
  "load (init_nets ex_fw (ex_opt_with k v) True sd gpu)
     = Done (init_nets ex_fw (ex_opt_with k v) True sd gpu)"
  by (simp add: load_def ex_opt_with_def with_option_def ex_opt_def Let_def)

lemma ex_bad_pixel:
  "getitem (with_option ''pixel_criterion'' (PStr ''cb'') ex_train) ''pixel_weight'' = Inr (PInt 1)"
  "getitem (with_option ''pixel_criterion'' (PStr ''cb'') ex_train) ''pixel_criterion''
     = Inr (PStr ''cb'')"
  by (simp_all add: with_option_def ex_train_def)

lemma ex_bad_feature:
  "getitem (with_option ''feature_criterion'' (PStr ''cb'') ex_train) ''feature_weight''
     = Inr (PInt 1)"
  "getitem (with_option ''feature_criterion'' (PStr ''cb'') ex_train) ''feature_criterion''
     = Inr (PStr ''cb'')"
  "\<not> isl (criterion_from_opt (with_option ''feature_criterion'' (PStr ''cb'') ex_train)
            ''pixel_weight'' ''pixel_criterion'')"
  by (simp_all add: with_option_def ex_train_def criterion_from_opt_def py_gt_int_def)

lemma ex_bad_scheme:
  "getitem (with_option ''lr_scheme'' (PStr ''CosineAnnealingLR'') ex_train) ''lr_scheme''
     = Inr (PStr ''CosineAnnealingLR'')"
  "reads_before_schedulers ex_fw (with_option ''lr_scheme'' (PStr ''CosineAnnealingLR'') ex_train)"
  by (simp_all add: with_option_def ex_train_def reads_before_schedulers_def
      criterion_from_opt_def py_gt_int_def getitem_or_def gp_from_opt_def
      make_optimizers_def ex_fw_def split: prod.splits)

section \<open>The claims\<close>



text \<open>
  Claim C2. Under the same hypotheses (a model initialised for training and fed, numeric
  weights, a condition of the generator update that evaluates),
  \<^verbatim>\<open>optimize_parameters(step)\<close> calls
  \<^verbatim>\<open>self.optimizer_G_other.step()\<close> if and only if \<open>step > 20000\<close>, and then once. The
  statement holds for every configuration \<open>train_opt\<close> and all training attributes \<open>t\<close>:
  the threshold is the literal of the source.
\<close>

theorem other_optimizer_step_iff_after_20000:
  assumes "initialised m train_opt t" "fed m" "gate step t = Inr g" "numeric_weights t"
  shows "\<exists>m'. optimize_parameters step m = Done m' \<and>
    (Step Optimizer_G_other \<in> set (new_events m m') \<longleftrightarrow> step > 20000) \<and>
    length (filter (\<lambda>e. e = Step Optimizer_G_other) (new_events m m'))
      = (if step > 20000 then 1 else 0)"
proof -
  obtain b where b: "var_H m = Some b" using fed_var_H [OF assms(2)] by blast
  from optimize_parameters_events [OF assms(1,2) b assms(3,4)]
  obtain m' where m': "optimize_parameters step m = Done m'"
    "new_events m m' = step_calls step g t b" by blast
  have "filter (\<lambda>e. e = Step Optimizer_G_other) (step_calls step g t b)
      = (if step > 20000 then [Step Optimizer_G_other] else [])"
    by (simp add: step_calls_def generator_section_def generator_calls_def
        discriminator_calls_def)
  moreover have "Step Optimizer_G_other \<in> set (step_calls step g t b) \<longleftrightarrow> step > 20000"
    by (simp add: step_calls_def generator_section_def generator_calls_def
        discriminator_calls_def)
  ultimately show ?thesis using m' by (intro exI [of _ m']) simp
qed

theorem other_optimizer_step_iff_after_20000_witness:
  "initialised ex_model ex_train ex_training \<and> fed ex_model \<and>
   gate 4 ex_training = Inr True \<and> numeric_weights ex_training \<and>
   (\<exists>m'. optimize_parameters 4 ex_model = Done m' \<and>
      Step Optimizer_G_other \<notin> set (new_events ex_model m'))"
  using other_optimizer_step_iff_after_20000 [OF ex_initialised ex_fed ex_gate ex_numeric]
    ex_initialised ex_fed ex_gate ex_numeric
  by auto

text \<open>
  Claim C3. When \<^verbatim>\<open>__init__\<close> returns in training mode, the optimizer
  \<^verbatim>\<open>optimizer_G_SFT\<close> holds the generator parameters whose name contains \<^verbatim>\<open>SFT\<close> or
  \<^verbatim>\<open>Cond\<close>, in the order of \<^verbatim>\<open>named_parameters()\<close>, with the learning rate
  \<^verbatim>\<open>lr_G * 5\<close>, and \<^verbatim>\<open>optimizer_G_other\<close> holds the other generator parameters with the
  learning rate \<^verbatim>\<open>lr_G\<close>; both have the weight decay \<^verbatim>\<open>wd_G\<close> (the option
  \<^verbatim>\<open>weight_decay_G\<close>, or 0 when it is falsy) and the betas \<^verbatim>\<open>(beta1_G, 0.999)\<close>.
  The lemma \<open>str_in_iff\<close> states that \<open>str_in\<close> is the substring test.
\<close>

theorem parameter_groups_and_learning_rates:
  assumes "init fwk opt' True sd gpu = Done m"
  shows "\<exists>train_opt t lr_G wd_G beta1_G.
     getitem opt' ''train'' = Inr train_opt \<and> tr m = Some t \<and>
     getitem train_opt ''lr_G'' = Inr lr_G \<and>
     getitem_or train_opt ''weight_decay_G'' (PInt 0) = Inr wd_G \<and>
     getitem train_opt ''beta1_G'' = Inr beta1_G \<and>
     params (optimizer_G_SFT t)
       = map snd (filter (\<lambda>(k, v). str_in ''SFT'' k \<or> str_in ''Cond'' k)
                    (named_parameters_G fwk)) \<and>
     params (optimizer_G_other t)
       = map snd (filter (\<lambda>(k, v). \<not> (str_in ''SFT'' k \<or> str_in ''Cond'' k))
                    (named_parameters_G fwk)) \<and>
     py_mul_int lr_G 5 = Inr (lr (optimizer_G_SFT t)) \<and>
     (\<forall>r. lr_G = PFloat r \<longrightarrow> lr (optimizer_G_SFT t) = PFloat (r * 5)) \<and>
     (\<forall>i. lr_G = PInt i \<longrightarrow> lr (optimizer_G_SFT t) = PInt (i * 5)) \<and>
     lr (optimizer_G_other t) = lr_G \<and>
     weight_decay (optimizer_G_SFT t) = wd_G \<and>
     weight_decay (optimizer_G_other t) = wd_G \<and>
     betas (optimizer_G_SFT t) = (beta1_G, PFloat 0.999) \<and>
     betas (optimizer_G_other t) = (beta1_G, PFloat 0.999)"
proof -
  from init_Done_training [OF assms] obtain train_opt t where
    t: "getitem opt' ''train'' = Inr train_opt" "initialised m train_opt t" "fw m = fwk"
    by blast
  have T: "tr m = Some t" using t(2) by (simp add: initialised_def)
  have "make_optimizers fwk train_opt
      = Inr (optimizer_G_SFT t, optimizer_G_other t, optimizer_D t)"
    using t(2,3) by (simp add: initialised_def configured_def)
  from make_optimizers_Inr [OF this] obtain lr_G wd_G beta1_G where o:
    "getitem train_opt ''lr_G'' = Inr lr_G"
    "getitem_or train_opt ''weight_decay_G'' (PInt 0) = Inr wd_G"
    "getitem train_opt ''beta1_G'' = Inr beta1_G"
    "optimizer_G_SFT t
       = \<lparr>params = map snd (filter (\<lambda>(k, v). str_in ''SFT'' k \<or> str_in ''Cond'' k)
                                (named_parameters_G fwk)),
          lr = lr (optimizer_G_SFT t), weight_decay = wd_G, betas = (beta1_G, PFloat 0.999)\<rparr>"
    "py_mul_int lr_G 5 = Inr (lr (optimizer_G_SFT t))"
    "optimizer_G_other t
       = \<lparr>params = map snd (filter (\<lambda>(k, v). \<not> (str_in ''SFT'' k \<or> str_in ''Cond'' k))
                                (named_parameters_G fwk)),
          lr = lr_G, weight_decay = wd_G, betas = (beta1_G, PFloat 0.999)\<rparr>"
    by blast
  have p: "params (optimizer_G_SFT t)
       = map snd (filter (\<lambda>(k, v). str_in ''SFT'' k \<or> str_in ''Cond'' k)
                    (named_parameters_G fwk))"
    "weight_decay (optimizer_G_SFT t) = wd_G"
    "betas (optimizer_G_SFT t) = (beta1_G, PFloat 0.999)"
    by (subst o(4), simp)+
  have q: "params (optimizer_G_other t)
       = map snd (filter (\<lambda>(k, v). \<not> (str_in ''SFT'' k \<or> str_in ''Cond'' k))
                    (named_parameters_G fwk))"
    "lr (optimizer_G_other t) = lr_G"
    "weight_decay (optimizer_G_other t) = wd_G"
    "betas (optimizer_G_other t) = (beta1_G, PFloat 0.999)"
    by (subst o(6), simp)+
  have f: "\<forall>r. lr_G = PFloat r \<longrightarrow> lr (optimizer_G_SFT t) = PFloat (r * 5)"
    "\<forall>i. lr_G = PInt i \<longrightarrow> lr (optimizer_G_SFT t) = PInt (i * 5)"
    using o(5) by auto
  show ?thesis
    using t(1) T o(1,2,3,5) p q f by blast
qed

theorem parameter_groups_and_learning_rates_witness:
  "init ex_fw ex_opt True ''exp/models'' False = Done ex_model0 \<and>
   (\<exists>t. tr ex_model0 = Some t \<and>
      params (optimizer_G_SFT t) = [0, 2] \<and> params (optimizer_G_other t) = [1] \<and>
      lr (optimizer_G_SFT t) = PInt 5 \<and> lr (optimizer_G_other t) = PInt 1)"
proof -
  have g: "getitem ex_train ''lr_G'' = Inr (PInt 1)"
    by (simp add: ex_train_def)
  have n: "named_parameters_G ex_fw = [(''a.SFT.w'', 0), (''conv.w'', 1), (''CondNet.b'', 2)]"
    by (simp add: ex_fw_def)
  from parameter_groups_and_learning_rates [OF ex_init]
  show ?thesis using ex_init ex_getitem_train g n by auto
qed

text \<open>
  Claim C4. \<^verbatim>\<open>__init__\<close> in training mode raises an exception, has written no file and has
  not printed the message that ends it, when \<^verbatim>\<open>pixel_weight > 0\<close> and \<^verbatim>\<open>pixel_criterion\<close>
  is neither \<^verbatim>\<open>'l1'\<close> nor \<^verbatim>\<open>'l2'\<close>, when \<^verbatim>\<open>feature_weight > 0\<close> and \<^verbatim>\<open>feature_criterion\<close>
  is neither, and when \<^verbatim>\<open>lr_scheme\<close> is not \<^verbatim>\<open>'MultiStepLR'\<close>. When the statements before
  the check return (\<^verbatim>\<open>load\<close>, and the reads of the options that come first), the
  exception is the \<^verbatim>\<open>NotImplementedError\<close> of that check; for the pixel criterion the model
  is then as the definitions of the networks and \<^verbatim>\<open>load\<close> left it.
\<close>

theorem init_raises_on_unrecognised_options:
  assumes "getitem opt' ''train'' = Inr train_opt"
  shows
  "(getitem train_opt ''pixel_weight'' = Inr w_pix \<and> py_gt_int w_pix 0 = Inr True \<and>
    getitem train_opt ''pixel_criterion'' = Inr c_pix \<and>
    c_pix \<noteq> PStr ''l1'' \<and> c_pix \<noteq> PStr ''l2'' \<longrightarrow>
      (\<exists>e m. init fwk opt' True sd gpu = Raised e m \<and> quiet (trace m)) \<and>
      (\<forall>m3. load (init_nets fwk opt' True sd gpu) = Done m3 \<longrightarrow>
         init fwk opt' True sd gpu = Raised (NotImplementedError_loss_type c_pix) m3))
   \<and>
   (getitem train_opt ''feature_weight'' = Inr w_fea \<and> py_gt_int w_fea 0 = Inr True \<and>
    getitem train_opt ''feature_criterion'' = Inr c_fea \<and>
    c_fea \<noteq> PStr ''l1'' \<and> c_fea \<noteq> PStr ''l2'' \<longrightarrow>
      (\<exists>e m. init fwk opt' True sd gpu = Raised e m \<and> quiet (trace m)) \<and>
      (\<forall>m3. load (init_nets fwk opt' True sd gpu) = Done m3 \<and>
            \<not> isl (criterion_from_opt train_opt ''pixel_weight'' ''pixel_criterion'') \<longrightarrow>
         (\<exists>m. init fwk opt' True sd gpu = Raised (NotImplementedError_loss_type c_fea) m)))
   \<and>
   (getitem train_opt ''lr_scheme'' = Inr s \<and> s \<noteq> PStr ''MultiStepLR'' \<longrightarrow>
      (\<exists>e m. init fwk opt' True sd gpu = Raised e m \<and> quiet (trace m)) \<and>
      (\<forall>m3. load (init_nets fwk opt' True sd gpu) = Done m3 \<and>
            reads_before_schedulers fwk train_opt \<longrightarrow>
         (\<exists>m. init fwk opt' True sd gpu = Raised NotImplementedError_lr_scheme m)))"
proof (intro conjI impI allI; (elim conjE)?)
  assume a: "getitem train_opt ''pixel_weight'' = Inr w_pix" "py_gt_int w_pix 0 = Inr True"
    "getitem train_opt ''pixel_criterion'' = Inr c_pix"
    "c_pix \<noteq> PStr ''l1''" "c_pix \<noteq> PStr ''l2''"
  note c = criterion_from_opt_unrecognised [OF a]
  show "\<exists>e m. init fwk opt' True sd gpu = Raised e m \<and> quiet (trace m)"
    using init_raises [OF assms] c by simp
  fix m3 assume "load (init_nets fwk opt' True sd gpu) = Done m3"
  from init_Raised_from_init_train [OF assms this init_train_Raised_pixel [OF c]]
  show "init fwk opt' True sd gpu = Raised (NotImplementedError_loss_type c_pix) m3" .
next
  assume a: "getitem train_opt ''feature_weight'' = Inr w_fea" "py_gt_int w_fea 0 = Inr True"
    "getitem train_opt ''feature_criterion'' = Inr c_fea"
    "c_fea \<noteq> PStr ''l1''" "c_fea \<noteq> PStr ''l2''"
  note c = criterion_from_opt_unrecognised [OF a]
  show "\<exists>e m. init fwk opt' True sd gpu = Raised e m \<and> quiet (trace m)"
    using init_raises [OF assms] c by simp
  fix m3 assume l: "load (init_nets fwk opt' True sd gpu) = Done m3"
    and "\<not> isl (criterion_from_opt train_opt ''pixel_weight'' ''pixel_criterion'')"
  then obtain p where
    "criterion_from_opt train_opt ''pixel_weight'' ''pixel_criterion'' = Inr p"
    by (metis sum.collapse(2))
  from init_train_Raised_feature [OF this c] obtain m' where
    "init_train train_opt m3 = Raised (NotImplementedError_loss_type c_fea) m'" by blast
  from init_Raised_from_init_train [OF assms l this]
  show "\<exists>m. init fwk opt' True sd gpu = Raised (NotImplementedError_loss_type c_fea) m"
    by blast
next
  assume a: "getitem train_opt ''lr_scheme'' = Inr s" "s \<noteq> PStr ''MultiStepLR''"
  note c = make_schedulers_unrecognised [OF a]
  show "\<exists>e m. init fwk opt' True sd gpu = Raised e m \<and> quiet (trace m)"
    using init_raises [OF assms] c by simp
  fix m3 assume l: "load (init_nets fwk opt' True sd gpu) = Done m3"
    and r: "reads_before_schedulers fwk train_opt"
  have "reads_before_schedulers (fw m3) train_opt" using r after_load(1) [OF l] by simp
  from init_train_Raised_schedulers [OF this c] obtain m' where
    "init_train train_opt m3 = Raised NotImplementedError_lr_scheme m'" by blast
  from init_Raised_from_init_train [OF assms l this]
  show "\<exists>m. init fwk opt' True sd gpu = Raised NotImplementedError_lr_scheme m"
    by blast
qed

theorem init_raises_on_unrecognised_options_witness:
  "getitem (ex_opt_with ''pixel_criterion'' (PStr ''cb'')) ''train''
     = Inr (with_option ''pixel_criterion'' (PStr ''cb'') ex_train)
   \<and> getitem (with_option ''pixel_criterion'' (PStr ''cb'') ex_train) ''pixel_weight''
     = Inr (PInt 1)
   \<and> py_gt_int (PInt 1) 0 = Inr True
   \<and> getitem (with_option ''pixel_criterion'' (PStr ''cb'') ex_train) ''pixel_criterion''
     = Inr (PStr ''cb'')
   \<and> init ex_fw (ex_opt_with ''pixel_criterion'' (PStr ''cb'')) True ''exp/models'' False
     = Raised (NotImplementedError_loss_type (PStr ''cb''))
         (init_nets ex_fw (ex_opt_with ''pixel_criterion'' (PStr ''cb'')) True ''exp/models'' False)
   \<and> getitem (with_option ''feature_criterion'' (PStr ''cb'') ex_train) ''feature_weight''
     = Inr (PInt 1)
   \<and> getitem (with_option ''feature_criterion'' (PStr ''cb'') ex_train) ''feature_criterion''
     = Inr (PStr ''cb'')
   \<and> (\<exists>m. init ex_fw (ex_opt_with ''feature_criterion'' (PStr ''cb'')) True ''exp/models'' False
            = Raised (NotImplementedError_loss_type (PStr ''cb'')) m)
   \<and> getitem (with_option ''lr_scheme'' (PStr ''CosineAnnealingLR'') ex_train) ''lr_scheme''
     = Inr (PStr ''CosineAnnealingLR'')
   \<and> (\<exists>m. init ex_fw (ex_opt_with ''lr_scheme'' (PStr ''CosineAnnealingLR'')) True
              ''exp/models'' False
            = Raised NotImplementedError_lr_scheme m)"
proof -
  have p: "py_gt_int (PInt 1) 0 = Inr True" by (simp add: py_gt_int_def)
  have a: "init ex_fw (ex_opt_with ''pixel_criterion'' (PStr ''cb'')) True ''exp/models'' False
     = Raised (NotImplementedError_loss_type (PStr ''cb''))
         (init_nets ex_fw (ex_opt_with ''pixel_criterion'' (PStr ''cb'')) True ''exp/models'' False)"
    using init_raises_on_unrecognised_options
      [OF ex_opt_with_train, of "''pixel_criterion''" "PStr ''cb''" "PInt 1" "PStr ''cb''"
         ex_fw "''exp/models''" False]
    by (simp add: ex_bad_pixel p ex_opt_with_load)
  have b: "\<exists>m. init ex_fw (ex_opt_with ''feature_criterion'' (PStr ''cb'')) True ''exp/models'' False
            = Raised (NotImplementedError_loss_type (PStr ''cb'')) m"
    using init_raises_on_unrecognised_options
      [OF ex_opt_with_train, of "''feature_criterion''" "PStr ''cb''" _ _ ex_fw "''exp/models''"
         False "PInt 1" "PStr ''cb''"]
    by (simp add: ex_bad_feature p ex_opt_with_load)
  have c: "\<exists>m. init ex_fw (ex_opt_with ''lr_scheme'' (PStr ''CosineAnnealingLR'')) True
              ''exp/models'' False
            = Raised NotImplementedError_lr_scheme m"
    using init_raises_on_unrecognised_options
      [OF ex_opt_with_train, of "''lr_scheme''" "PStr ''CosineAnnealingLR''" _ _ ex_fw
         "''exp/models''" False _ _ "PStr ''CosineAnnealingLR''"]
    by (simp add: ex_bad_scheme ex_opt_with_load)
  show ?thesis
    by (intro conjI a b c p ex_opt_with_train ex_bad_pixel ex_bad_feature(1,2) ex_bad_scheme(1))
qed

text \<open>
  Claim C5. On a model initialised for training from \<open>train_opt\<close> and fed, whose weights
  \<^verbatim>\<open>l_gan_w\<close> and (for \<^verbatim>\<open>'wgan-gp'\<close>) \<^verbatim>\<open>l_gp_w\<close> are numbers, where
  \<^verbatim>\<open>pixel_weight > 0\<close> evaluates to \<open>pos_pix\<close> and \<^verbatim>\<open>feature_weight > 0\<close> to \<open>pos_fea\<close>:
  on a generator-update step the loss that is backpropagated is the sum of the pixel
  term if and only if \<open>pos_pix\<close>, of the feature term if and only if \<open>pos_fea\<close>, and of
  the adversarial and the classification term, the first two multiplied by
  \<^verbatim>\<open>pixel_weight\<close> and \<^verbatim>\<open>feature_weight\<close> and the last two by \<^verbatim>\<open>gan_weight\<close>. On every
  step the discriminator loss is the sum of its four terms and, if and only if
  \<^verbatim>\<open>gan_type == 'wgan-gp'\<close>, of the gradient penalty multiplied by the value of the key
  \<^verbatim>\<open>gp_weigth\<close>.
\<close>

theorem loss_terms_follow_configuration:
  assumes "initialised m train_opt t" "fed m" "gate step t = Inr g" "numeric_weights t"
  shows "\<exists>m' l_d w_pix w_fea w_gan gan_type pos_pix pos_fea.
    optimize_parameters step m = Done m' \<and>
    getitem train_opt ''pixel_weight'' = Inr w_pix \<and> py_gt_int w_pix 0 = Inr pos_pix \<and>
    getitem train_opt ''feature_weight'' = Inr w_fea \<and> py_gt_int w_fea 0 = Inr pos_fea \<and>
    getitem train_opt ''gan_weight'' = Inr w_gan \<and>
    getitem train_opt ''gan_type'' = Inr gan_type \<and>
    (g \<longrightarrow> (\<exists>l_g.
       filter is_Backward (generator_part (new_events m m')) = [Backward l_g] \<and>
       summands l_g
         = (if pos_pix then [Weighted w_pix (Call M_cri_pix [the_fake, Var_H])] else [])
           @ (if pos_fea
              then [Weighted w_fea
                      (Call M_cri_fea [Call M_netF [the_fake], Detach (Call M_netF [Var_H])])]
              else [])
           @ [Weighted w_gan (Call M_cri_gan [netD_pred the_fake, Target True]),
              Weighted w_gan (Call M_cri_ce [netD_cls the_fake, Var_cat])])) \<and>
    filter is_Backward (discriminator_part (new_events m m')) = [Backward l_d] \<and>
    (gan_type \<noteq> PStr ''wgan-gp'' \<longrightarrow>
       summands l_d = [l_d_real, l_d_cls_real, l_d_fake the_fake, l_d_cls_fake the_fake]) \<and>
    (gan_type = PStr ''wgan-gp'' \<longrightarrow>
       (\<exists>w_gp. getitem train_opt ''gp_weigth'' = Inr w_gp \<and>
          summands l_d = [l_d_real, l_d_cls_real, l_d_fake the_fake, l_d_cls_fake the_fake]
            @ [Weighted w_gp
                 (Call M_cri_gp [interp the_fake, netD_pred (interp the_fake)])]))"
proof -
  obtain b where b: "var_H m = Some b" using fed_var_H [OF assms(2)] by blast
  from optimize_parameters_events [OF assms(1,2) b assms(3,4)]
  obtain m' where m': "optimize_parameters step m = Done m'"
    "new_events m m' = step_calls step g t b" by blast
  from initialised_weights [OF assms(1)]
  obtain w_pix w_fea pos_pix pos_fea where w:
    "getitem train_opt ''pixel_weight'' = Inr w_pix" "py_gt_int w_pix 0 = Inr pos_pix"
    "getitem train_opt ''feature_weight'' = Inr w_fea" "py_gt_int w_fea 0 = Inr pos_fea"
    "cri_pix t \<noteq> None \<longleftrightarrow> pos_pix" "pos_pix \<longrightarrow> l_pix_w t = Some w_pix"
    "cri_fea t \<noteq> None \<longleftrightarrow> pos_fea" "pos_fea \<longrightarrow> l_fea_w t = Some w_fea"
    by blast
  have gw: "getitem train_opt ''gan_weight'' = Inr (l_gan_w t)"
    and gt: "getitem train_opt ''gan_type'' = Inr (cri_gan t)"
    using assms(1) by (simp_all add: initialised_def configured_def)
  have G: "g \<Longrightarrow> filter is_Backward (generator_part (new_events m m'))
      = [Backward (l_g_total t the_fake)]"
    using m' by (simp add: generator_part_step_calls filter_Backward_generator_section)
  have D: "filter is_Backward (discriminator_part (new_events m m'))
      = [Backward (l_d_total t the_fake)]"
    using m' by (simp add: discriminator_part_step_calls filter_Backward_discriminator_calls)
  have SG: "summands (l_g_total t the_fake)
      = (if pos_pix then [Weighted w_pix (Call M_cri_pix [the_fake, Var_H])] else [])
        @ (if pos_fea
           then [Weighted w_fea
                   (Call M_cri_fea [Call M_netF [the_fake], Detach (Call M_netF [Var_H])])]
           else [])
        @ [Weighted (l_gan_w t) (Call M_cri_gan [netD_pred the_fake, Target True]),
           Weighted (l_gan_w t) (Call M_cri_ce [netD_cls the_fake, Var_cat])]"
    using w(5-8)
    by (cases pos_pix; cases pos_fea)
       (auto simp: summands_l_g_total l_g_pix_def l_g_fea_def l_g_gan_def l_g_cls_def)
  have SD1: "cri_gan t \<noteq> PStr ''wgan-gp'' \<Longrightarrow>
      summands (l_d_total t the_fake)
        = [l_d_real, l_d_cls_real, l_d_fake the_fake, l_d_cls_fake the_fake]"
    by (simp add: summands_l_d_total gp_term_def)
  have SD2: "\<exists>w_gp. getitem train_opt ''gp_weigth'' = Inr w_gp \<and>
      summands (l_d_total t the_fake)
        = [l_d_real, l_d_cls_real, l_d_fake the_fake, l_d_cls_fake the_fake]
          @ [Weighted w_gp (Call M_cri_gp [interp the_fake, netD_pred (interp the_fake)])]"
    if "cri_gan t = PStr ''wgan-gp''"
    using initialised_gp [OF assms(1) that] that
    by (auto simp: summands_l_d_total gp_term_def l_d_gp_def)
  show ?thesis
    using m'(1) w(1-4) gw gt G D SG SD1 SD2 by blast
qed

theorem loss_terms_follow_configuration_witness:
  "initialised ex_model ex_train ex_training \<and> fed ex_model \<and>
   gate 4 ex_training = Inr True \<and> numeric_weights ex_training \<and>
   (\<exists>m' l_g. optimize_parameters 4 ex_model = Done m' \<and>
      filter is_Backward (generator_part (new_events ex_model m')) = [Backward l_g] \<and>
      summands l_g
        = [Weighted (PInt 1) (Call M_cri_pix [the_fake, Var_H]),
           Weighted (PInt 1)
             (Call M_cri_fea [Call M_netF [the_fake], Detach (Call M_netF [Var_H])]),
           Weighted (PInt 1) (Call M_cri_gan [netD_pred the_fake, Target True]),
           Weighted (PInt 1) (Call M_cri_ce [netD_cls the_fake, Var_cat])])"
proof -
  have c: "getitem ex_train ''pixel_weight'' = Inr (PInt 1)"
    "getitem ex_train ''feature_weight'' = Inr (PInt 1)"
    "getitem ex_train ''gan_weight'' = Inr (PInt 1)"
    "py_gt_int (PInt 1) 0 = Inr True"
    by (simp_all add: ex_train_def py_gt_int_def)
  from loss_terms_follow_configuration [OF ex_initialised ex_fed ex_gate ex_numeric]
  show ?thesis using ex_initialised ex_fed ex_gate ex_numeric c by auto
qed

text \<open>
  Claim C7. When \<^verbatim>\<open>__init__\<close> returns, the files it has written are, in test mode, none
  and, in training mode, those of \<^verbatim>\<open>print_network\<close>: the description of the generator
  written (mode \<^verbatim>\<open>'w'\<close>) to \<^verbatim>\<open>os.path.join(save_dir, '../', 'network.txt')\<close>, then the
  description of the discriminator appended to the same file, then the description of
  the perceptual network appended if and only if the feature loss is enabled, that is, if
  and only if \<^verbatim>\<open>feature_weight > 0\<close>. For a save directory that is not empty and does not
  end with a slash, the path is \<^verbatim>\<open>save_dir/../network.txt\<close> (lemma
  \<open>os_path_join_next_to\<close>).
\<close>

theorem init_writes_network_description:
  assumes "init fwk opt' it sd gpu = Done m"
  shows "(\<not> it \<longrightarrow> file_writes (trace m) = []) \<and>
    (it \<longrightarrow> (\<exists>train_opt t w.
       getitem opt' ''train'' = Inr train_opt \<and> tr m = Some t \<and>
       getitem train_opt ''feature_weight'' = Inr w \<and>
       (cri_fea t \<noteq> None \<longleftrightarrow> py_gt_int w 0 = Inr True) \<and>
       file_writes (trace m)
         = [File_write (os_path_join sd [''../'', ''network.txt'']) ''w''
              (''-------------- Generator --------------\<newline>''
               @ fst (get_network_description fwk M_netG) @ ''\<newline>''),
            File_write (os_path_join sd [''../'', ''network.txt'']) ''a''
              (''\<newline>\<newline>\<newline>-------------- Discriminator --------------\<newline>''
               @ fst (get_network_description fwk M_netD) @ ''\<newline>'')]
           @ (if cri_fea t \<noteq> None
              then [File_write (os_path_join sd [''../'', ''network.txt'']) ''a''
                      (''\<newline>\<newline>\<newline>-------------- Perceptual Network --------------\<newline>''
                       @ fst (get_network_description fwk M_netF) @ ''\<newline>'')]
              else [])))"
proof (cases it)
  case False
  with assms show ?thesis using init_Done_test(1) by simp
next
  case True
  with assms have a: "init fwk opt' True sd gpu = Done m" by simp
  from init_Done_training [OF a] obtain train_opt t where
    t: "getitem opt' ''train'' = Inr train_opt" "initialised m train_opt t"
       "fw m = fwk" "save_dir m = sd"
       "file_writes (trace m) = network_writes m (cri_fea t \<noteq> None)"
    by blast
  have T: "tr m = Some t" using t(2) by (simp add: initialised_def)
  from initialised_weights [OF t(2)] obtain w pos where
    w: "getitem train_opt ''feature_weight'' = Inr w" "py_gt_int w 0 = Inr pos"
       "cri_fea t \<noteq> None \<longleftrightarrow> pos"
    by blast
  have c: "cri_fea t \<noteq> None \<longleftrightarrow> py_gt_int w 0 = Inr True" using w(2,3) by auto
  show ?thesis
    using True t(1) T w(1) c t(5)
    by (auto simp: network_writes_def network_path_def t(3,4))
qed

theorem init_writes_network_description_witness:
  "init ex_fw ex_opt True ''exp/models'' False = Done ex_model0 \<and>
   file_writes (trace ex_model0)
     = [File_write ''exp/models/../network.txt'' ''w''
          ''-------------- Generator --------------\<newline>net\<newline>'',
        File_write ''exp/models/../network.txt'' ''a''
          ''\<newline>\<newline>\<newline>-------------- Discriminator --------------\<newline>net\<newline>'',
        File_write ''exp/models/../network.txt'' ''a''
          ''\<newline>\<newline>\<newline>-------------- Perceptual Network --------------\<newline>net\<newline>'']"
proof -
  have t: "tr ex_model0 = Some ex_training" "cri_fea ex_training \<noteq> None"
    "fst (get_network_description ex_fw f) = ''net''" for f
    by (simp_all add: ex_model0_def ex_training_def ex_fw_def)
  from init_writes_network_description [OF ex_init]
  show ?thesis using ex_init t by auto
qed

text \<open>
  Claim C6. The generator is not given the category label. Every forward pass of the
  generator, in \<^verbatim>\<open>test()\<close> and in \<^verbatim>\<open>optimize_parameters(step)\<close>, is the one call
  \<^verbatim>\<open>self.netG((self.var_L, self.var_seg))\<close> on the pair of the low-resolution image and the
  segmentation map. In \<^verbatim>\<open>optimize_parameters\<close> the category label \<^verbatim>\<open>var_cat\<close> is an argument
  of the classification criterion \<^verbatim>\<open>cri_ce\<close> only, where it is the target of the class output
  of the discriminator.
\<close>

theorem generator_forward_takes_image_and_segmentation:
  "(var_L m \<noteq> None \<and> var_seg m \<noteq> None \<longrightarrow>
      (\<exists>m'. test m = Done m' \<and>
         filter is_generator_forward (new_events m m')
           = [Forward M_netG [Tuple [Var_L, Var_seg]]])) \<and>
   (initialised m train_opt t \<and> fed m \<and> gate step t = Inr g \<and> numeric_weights t \<longrightarrow>
      (\<exists>m'. optimize_parameters step m = Done m' \<and>
         filter is_generator_forward (new_events m m')
           = [Forward M_netG [Tuple [Var_L, Var_seg]]] \<and>
         (\<forall>f args a. Forward f args \<in> set (new_events m m') \<and> a \<in> set args \<and>
            mentions Var_cat a \<longrightarrow> f = M_cri_ce) \<and>
         Forward M_cri_ce [netD_cls (Detach the_fake), Var_cat] \<in> set (new_events m m')))"
proof (intro conjI impI)
  assume "var_L m \<noteq> None \<and> var_seg m \<noteq> None"
  then show "\<exists>m'. test m = Done m' \<and>
         filter is_generator_forward (new_events m m')
           = [Forward M_netG [Tuple [Var_L, Var_seg]]]"
    by (cases "var_L m"; cases "var_seg m") (auto simp: test_def new_events_def Let_def)
next
  assume A: "initialised m train_opt t \<and> fed m \<and> gate step t = Inr g \<and> numeric_weights t"
  then obtain b where b: "var_H m = Some b" using fed_var_H by blast
  from A optimize_parameters_events [OF _ _ b, of train_opt t step g]
  obtain m' where m': "optimize_parameters step m = Done m'"
    "new_events m m' = step_calls step g t b" by blast
  have "Forward M_cri_ce [netD_cls (Detach the_fake), Var_cat] \<in> set (step_calls step g t b)"
    by (simp add: step_calls_def discriminator_calls_def)
  with m' show "\<exists>m'. optimize_parameters step m = Done m' \<and>
         filter is_generator_forward (new_events m m')
           = [Forward M_netG [Tuple [Var_L, Var_seg]]] \<and>
         (\<forall>f args a. Forward f args \<in> set (new_events m m') \<and> a \<in> set args \<and>
            mentions Var_cat a \<longrightarrow> f = M_cri_ce) \<and>
         Forward M_cri_ce [netD_cls (Detach the_fake), Var_cat] \<in> set (new_events m m')"
    using step_calls_generator_forward [of step g t b] step_calls_category [of _ _ step g t b]
    by (intro exI [of _ m']) (simp, blast)
qed

theorem generator_forward_takes_image_and_segmentation_witness:
  "var_L ex_model \<noteq> None \<and> var_seg ex_model \<noteq> None \<and>
   initialised ex_model ex_train ex_training \<and> fed ex_model \<and>
   gate 4 ex_training = Inr True \<and> numeric_weights ex_training \<and>
   (\<exists>m'. test ex_model = Done m' \<and>
      filter is_generator_forward (new_events ex_model m')
        = [Forward M_netG [Tuple [Var_L, Var_seg]]]) \<and>
   (\<exists>m'. optimize_parameters 4 ex_model = Done m' \<and>
      filter is_generator_forward (new_events ex_model m')
        = [Forward M_netG [Tuple [Var_L, Var_seg]]])"
proof -
  have v: "var_L ex_model \<noteq> None \<and> var_seg ex_model \<noteq> None"
    by (simp add: ex_model_def)
  from generator_forward_takes_image_and_segmentation
    [of ex_model ex_train ex_training 4 True]
  show ?thesis using v ex_initialised ex_fed ex_gate ex_numeric by auto
qed

text \<open>
  The statement that every forward pass of the generator takes the category label does not
  hold: on the fed example model, where \<^verbatim>\<open>var_cat\<close> is set, the generator is called on
  \<^verbatim>\<open>(var_L, var_seg)\<close> in \<^verbatim>\<open>test()\<close> and in \<^verbatim>\<open>optimize_parameters(4)\<close>, and this argument
  is not built from \<^verbatim>\<open>var_cat\<close>.
\<close>

theorem generator_forward_without_category:
  "var_cat ex_model = Some 4 \<and>
   new_events ex_model (outcome_model (test ex_model))
     = [Set_eval M_netG, Forward M_netG [Tuple [Var_L, Var_seg]], Set_train M_netG] \<and>
   \<not> mentions Var_cat (Tuple [Var_L, Var_seg]) \<and>
   Forward M_netG [Tuple [Var_L, Var_seg]]
     \<in> set (new_events ex_model (outcome_model (optimize_parameters 4 ex_model)))"
proof -
  obtain b where b: "var_H ex_model = Some b" using fed_var_H [OF ex_fed] by blast
  from optimize_parameters_events [OF ex_initialised ex_fed b ex_gate ex_numeric]
  obtain m' where m': "optimize_parameters 4 ex_model = Done m'"
    "new_events ex_model m' = step_calls 4 True ex_training b" by blast
  have 1: "Forward M_netG [Tuple [Var_L, Var_seg]]
     \<in> set (new_events ex_model (outcome_model (optimize_parameters 4 ex_model)))"
    using m' by (simp add: step_calls_def generator_section_def)
  have 2: "new_events ex_model (outcome_model (test ex_model))
     = [Set_eval M_netG, Forward M_netG [Tuple [Var_L, Var_seg]], Set_train M_netG]"
    by (simp add: test_def ex_model_def new_events_def Let_def)
  have 3: "var_cat ex_model = Some 4" by (simp add: ex_model_def)
  show ?thesis using 1 2 3 by simp
qed

text \<open>
  Claim C8. Under the same hypotheses, for every \<open>step\<close> the call performs one
  discriminator update: one \<^verbatim>\<open>optimizer_D.zero_grad()\<close>, then the forward passes of the
  discriminator on the real data and on the detached fake data (never on the fake data
  itself), one backward pass of a loss whose first four terms are the two adversarial and
  the two classification terms, and one \<^verbatim>\<open>optimizer_D.step()\<close>, whatever the value \<open>g\<close>
  of the generator condition.
\<close>

theorem one_discriminator_update_per_step:
  assumes "initialised m train_opt t" "fed m" "gate step t = Inr g" "numeric_weights t"
  shows "\<exists>m' mid. optimize_parameters step m = Done m' \<and>
    length (filter (\<lambda>e. e = Zero_grad Optimizer_D) (new_events m m')) = 1 \<and>
    length (filter (\<lambda>e. e = Step Optimizer_D) (new_events m m')) = 1 \<and>
    discriminator_part (new_events m m')
      = Zero_grad Optimizer_D # mid @ [Backward (l_d_total t the_fake), Step Optimizer_D] \<and>
    filter is_Backward (discriminator_part (new_events m m'))
      = [Backward (l_d_total t the_fake)] \<and>
    take 4 (summands (l_d_total t the_fake))
      = [Call M_cri_gan [netD_pred Var_H, Target True],
         Call M_cri_ce [netD_cls Var_H, Var_cat],
         Call M_cri_gan [netD_pred (Detach the_fake), Target False],
         Call M_cri_ce [netD_cls (Detach the_fake), Var_cat]] \<and>
    Forward M_netD [Var_H] \<in> set mid \<and>
    Forward M_netD [Detach the_fake] \<in> set mid \<and>
    Forward M_netD [the_fake] \<notin> set mid"
proof -
  obtain b where b: "var_H m = Some b" using fed_var_H [OF assms(2)] by blast
  from optimize_parameters_events [OF assms(1,2) b assms(3,4)]
  obtain m' where m': "optimize_parameters step m = Done m'"
    "new_events m m' = step_calls step g t b" by blast
  define mid where "mid =
     [Forward M_netD [Var_H],
      Forward M_cri_gan [netD_pred Var_H, Target True],
      Forward M_cri_ce [netD_cls Var_H, Var_cat],
      Forward M_netD [Detach the_fake],
      Forward M_cri_gan [netD_pred (Detach the_fake), Target False],
      Forward M_cri_ce [netD_cls (Detach the_fake), Var_cat]]
     @ (if cri_gan t = PStr ''wgan-gp''
        then (if random_pt t \<noteq> Some b then [Resize_random_pt b] else [])
             @ [Uniform_random_pt,
                Forward M_netD [interp the_fake],
                Forward M_cri_gp [interp the_fake, netD_pred (interp the_fake)]]
        else [])"
  have D: "discriminator_calls t b the_fake
      = Zero_grad Optimizer_D # mid @ [Backward (l_d_total t the_fake), Step Optimizer_D]"
    by (simp add: discriminator_calls_def mid_def)
  have 1: "length (filter (\<lambda>e. e = Zero_grad Optimizer_D) (step_calls step g t b)) = 1"
    by (simp add: step_calls_def generator_section_def generator_calls_def
        discriminator_calls_def)
  have 2: "length (filter (\<lambda>e. e = Step Optimizer_D) (step_calls step g t b)) = 1"
    by (simp add: step_calls_def generator_section_def generator_calls_def
        discriminator_calls_def)
  have 3: "take 4 (summands (l_d_total t the_fake))
      = [Call M_cri_gan [netD_pred Var_H, Target True],
         Call M_cri_ce [netD_cls Var_H, Var_cat],
         Call M_cri_gan [netD_pred (Detach the_fake), Target False],
         Call M_cri_ce [netD_cls (Detach the_fake), Var_cat]]"
    by (simp add: summands_l_d_total l_d_real_def l_d_cls_real_def l_d_fake_def
        l_d_cls_fake_def)
  have 4: "Forward M_netD [Var_H] \<in> set mid" "Forward M_netD [Detach the_fake] \<in> set mid"
    "Forward M_netD [the_fake] \<notin> set mid"
    by (simp_all add: mid_def the_fake_def interp_def)
  have 5: "filter is_Backward (discriminator_part (new_events m m'))
      = [Backward (l_d_total t the_fake)]"
    using m' by (simp add: discriminator_part_step_calls filter_Backward_discriminator_calls)
  have 6: "discriminator_part (new_events m m')
      = Zero_grad Optimizer_D # mid @ [Backward (l_d_total t the_fake), Step Optimizer_D]"
    using m' D by (simp add: discriminator_part_step_calls)
  show ?thesis
    using m'(1) 1 2 3 4 5 6 unfolding m'(2) [symmetric]
    by (intro exI [of _ m'] exI [of _ mid]) blast
qed

theorem one_discriminator_update_per_step_witness:
  "initialised ex_model ex_train ex_training \<and> fed ex_model \<and>
   gate 4 ex_training = Inr True \<and> numeric_weights ex_training \<and>
   (\<exists>m'. optimize_parameters 4 ex_model = Done m' \<and>
      length (filter (\<lambda>e. e = Step Optimizer_D) (new_events ex_model m')) = 1)"
  using one_discriminator_update_per_step [OF ex_initialised ex_fed ex_gate ex_numeric]
    ex_initialised ex_fed ex_gate ex_numeric
  by auto

text \<open>
  Claim C9. Every \<^verbatim>\<open>test()\<close> that returns leaves \<^verbatim>\<open>netG\<close> in training mode: its
  calls are \<^verbatim>\<open>netG.eval()\<close>, the forward pass on \<^verbatim>\<open>(var_L, var_seg)\<close> that produces
  \<^verbatim>\<open>fake_H\<close>, and \<^verbatim>\<open>netG.train()\<close>, in this order; and it returns whenever
  \<^verbatim>\<open>feed_data\<close> has set \<^verbatim>\<open>var_L\<close> and \<^verbatim>\<open>var_seg\<close>.
\<close>

theorem test_restores_train_mode:
  "(\<forall>m'. test m = Done m' \<longrightarrow>
       netG_mode m' = Train_mode \<and>
       new_events m m' = [Set_eval M_netG, Forward M_netG [Tuple [Var_L, Var_seg]],
                          Set_train M_netG] \<and>
       fake_H m' = Some (Call M_netG [Tuple [Var_L, Var_seg]]))
   \<and> (var_L m \<noteq> None \<and> var_seg m \<noteq> None \<longrightarrow> (\<exists>m'. test m = Done m'))"
  by (cases "var_L m"; cases "var_seg m") (auto simp: test_def new_events_def Let_def)

theorem test_restores_train_mode_witness:
  "var_L ex_model \<noteq> None \<and> var_seg ex_model \<noteq> None \<and>
   (\<exists>m'. test ex_model = Done m' \<and> netG_mode m' = Train_mode \<and>
      new_events ex_model m' = [Set_eval M_netG, Forward M_netG [Tuple [Var_L, Var_seg]],
                                Set_train M_netG])"
proof -
  have v: "var_L ex_model \<noteq> None \<and> var_seg ex_model \<noteq> None"
    by (simp add: ex_model_def)
  with test_restores_train_mode [of ex_model] show ?thesis by blast
qed

text \<open>
  Claim C10. When \<^verbatim>\<open>__init__\<close> returns in training mode, \<^verbatim>\<open>D_update_ratio\<close> is the
  option of this name, or 1 when the option is falsy, and \<^verbatim>\<open>D_init_iters\<close> is the option
  of this name, or 0 when it is falsy; this covers a key that is absent from an options
  dictionary that reads absent keys as \<^verbatim>\<open>None\<close> (with a plain dictionary the absent key
  raises \<^verbatim>\<open>KeyError\<close> and \<^verbatim>\<open>__init__\<close> does not return). When both options are falsy, the
  condition of the generator update is \<open>1 \<le> step\<close>. When \<^verbatim>\<open>gan_type\<close> is \<^verbatim>\<open>'wgan-gp'\<close>,
  the weight of the gradient penalty is the value of the key \<^verbatim>\<open>gp_weigth\<close>.
\<close>

theorem schedule_defaults_and_gp_weight_key:
  assumes "init fwk opt' True sd gpu = Done m"
  shows "\<exists>train_opt t v_ratio v_iters.
     getitem opt' ''train'' = Inr train_opt \<and> tr m = Some t \<and>
     getitem train_opt ''D_update_ratio'' = Inr v_ratio \<and>
     getitem train_opt ''D_init_iters'' = Inr v_iters \<and>
     D_update_ratio t = (if truthy v_ratio then v_ratio else PInt 1) \<and>
     D_init_iters t = (if truthy v_iters then v_iters else PInt 0) \<and>
     (\<forall>kvs. train_opt = PDict kvs (Some PNone) \<and> map_of kvs ''D_update_ratio'' = None
        \<longrightarrow> D_update_ratio t = PInt 1) \<and>
     (\<forall>kvs. train_opt = PDict kvs (Some PNone) \<and> map_of kvs ''D_init_iters'' = None
        \<longrightarrow> D_init_iters t = PInt 0) \<and>
     (\<not> truthy v_ratio \<and> \<not> truthy v_iters \<longrightarrow>
        (\<forall>step. gate step t = Inr (1 \<le> step))) \<and>
     (getitem train_opt ''gan_type'' = Inr (PStr ''wgan-gp'') \<longrightarrow>
        (\<exists>w. getitem train_opt ''gp_weigth'' = Inr w \<and> l_gp_w t = Some w))"
proof -
  from init_Done_training [OF assms] obtain train_opt t where
    t: "getitem opt' ''train'' = Inr train_opt" "initialised m train_opt t"
    by blast
  have T: "tr m = Some t" using t(2) by (simp add: initialised_def)
  have c: "getitem_or train_opt ''D_update_ratio'' (PInt 1) = Inr (D_update_ratio t)"
    "getitem_or train_opt ''D_init_iters'' (PInt 0) = Inr (D_init_iters t)"
    "getitem train_opt ''gan_type'' = Inr (cri_gan t)"
    using t(2) by (simp_all add: initialised_def configured_def)
  from getitem_or_Inr [OF c(1)] obtain v_ratio where
    r: "getitem train_opt ''D_update_ratio'' = Inr v_ratio"
       "D_update_ratio t = (if truthy v_ratio then v_ratio else PInt 1)" by blast
  from getitem_or_Inr [OF c(2)] obtain v_iters where
    i: "getitem train_opt ''D_init_iters'' = Inr v_iters"
       "D_init_iters t = (if truthy v_iters then v_iters else PInt 0)" by blast
  have a1: "D_update_ratio t = PInt 1"
    if "train_opt = PDict kvs (Some PNone)" "map_of kvs ''D_update_ratio'' = None" for kvs
    using that r by auto
  have a2: "D_init_iters t = PInt 0"
    if "train_opt = PDict kvs (Some PNone)" "map_of kvs ''D_init_iters'' = None" for kvs
    using that i by auto
  have g: "\<forall>step. gate step t = Inr (1 \<le> step)" if "\<not> truthy v_ratio" "\<not> truthy v_iters"
    using that r(2) i(2) gate_defaults [of t] by simp
  have w: "\<exists>w. getitem train_opt ''gp_weigth'' = Inr w \<and> l_gp_w t = Some w"
    if "getitem train_opt ''gan_type'' = Inr (PStr ''wgan-gp'')"
    using initialised_gp [OF t(2)] that c(3) by auto
  show ?thesis
    using t(1) T r i a1 a2 g w by blast
qed

theorem schedule_defaults_and_gp_weight_key_witness:
  "init ex_fw ex_opt_defaults True ''exp/models'' False = Done ex_model_defaults \<and>
   getitem ex_train_defaults ''D_update_ratio'' = Inr PNone \<and>
   getitem ex_train_defaults ''D_init_iters'' = Inr (PInt 0) \<and>
   getitem ex_train_defaults ''gp_weight'' = Inr (PInt 7) \<and>
   (\<exists>t. tr ex_model_defaults = Some t \<and>
      D_update_ratio t = PInt 1 \<and> D_init_iters t = PInt 0 \<and>
      gate 1 t = Inr True \<and> gate 0 t = Inr False \<and>
      l_gp_w t = Some (PInt 10))"
proof -
  have t: "getitem ex_opt_defaults ''train'' = Inr ex_train_defaults"
    by (simp add: ex_opt_defaults_def)
  have g: "getitem ex_train_defaults ''D_update_ratio'' = Inr PNone"
    "getitem ex_train_defaults ''D_init_iters'' = Inr (PInt 0)"
    "getitem ex_train_defaults ''gan_type'' = Inr (PStr ''wgan-gp'')"
    "getitem ex_train_defaults ''gp_weigth'' = Inr (PInt 10)"
    "getitem ex_train_defaults ''gp_weight'' = Inr (PInt 7)"
    by (simp_all add: ex_train_defaults_def)
  from schedule_defaults_and_gp_weight_key [OF ex_defaults_init]
  show ?thesis using ex_defaults_init t g by auto
qed

end
